theory Spec2Isabelle
  imports Complex_Main "HOL-Library.AList"
begin

section \<open>Instants and the local calendar\<close>

text \<open>
  A JavaScript \<^verbatim>\<open>Date\<close> holds a time value: the milliseconds since the epoch
  (\<^verbatim>\<open>getTime()\<close>). The ISO strings kept in \<^verbatim>\<open>lastUpdate\<close> and
  \<^verbatim>\<open>weekStartDate\<close> are written by \<^verbatim>\<open>toISOString()\<close> and read back by
  \<^verbatim>\<open>new Date(string)\<close>, which give the same time value again; the model keeps
  the time value. Time values are integers of magnitude at most 8.64e15, so they and the
  day counts computed from them are exact in double arithmetic wherever a reset is
  decided.

  The local time zone is the environment's. ECMA-262 reads it in two directions:
  \<open>utc_offset tz t\<close> is the offset of local time from UTC, in milliseconds, at the
  instant \<open>t\<close> (\<^verbatim>\<open>LocalTZA(t, true)\<close>), and \<open>local_offset tz l\<close> is the offset used to
  turn the local time \<open>l\<close> back into an instant (\<^verbatim>\<open>LocalTZA(l, false)\<close>): for a
  local time that the zone skipped or repeated it is the offset before the transition.
\<close>

type_synonym instant = int

record zone =
  utc_offset :: "instant \<Rightarrow> int"
  local_offset :: "int \<Rightarrow> int"

definition msPerDay :: int where
  "msPerDay = 1000 * 60 * 60 * 24"

text \<open>The number of the local calendar day an instant falls on (day 0 is 1970-01-01).\<close>

definition LocalTime :: "zone \<Rightarrow> instant \<Rightarrow> int" where
  "LocalTime tz t = t + utc_offset tz t"

definition UTC_time :: "zone \<Rightarrow> int \<Rightarrow> instant" where
  "UTC_time tz l = l - local_offset tz l"

definition local_day :: "zone \<Rightarrow> instant \<Rightarrow> int" where
  "local_day tz t = LocalTime tz t div msPerDay"

text \<open>
  The calendar fields of a day number, as ECMA-262 defines \<^verbatim>\<open>getFullYear\<close>,
  \<^verbatim>\<open>getMonth\<close> and \<^verbatim>\<open>getDate\<close>: \<open>DayFromYear\<close>, \<open>InLeapYear\<close>,
  \<open>YearFromTime\<close> (the largest year that starts on or before the day),
  \<open>DayWithinYear\<close>, \<open>MonthFromTime\<close> and \<open>DateFromTime\<close>.
\<close>

definition DayFromYear :: "int \<Rightarrow> int" where
  "DayFromYear y =
     365 * (y - 1970) + (y - 1969) div 4 - (y - 1901) div 100 + (y - 1601) div 400"

definition InLeapYear :: "int \<Rightarrow> int" where
  "InLeapYear y =
     (if y mod 4 \<noteq> 0 then 0
      else if y mod 100 \<noteq> 0 then 1
      else if y mod 400 \<noteq> 0 then 0
      else 1)"

definition YearFromDay :: "int \<Rightarrow> int" where
  "YearFromDay d =
     (let y0 = 1970 + (400 * d) div 146097
      in if d < DayFromYear y0 then y0 - 1
         else if DayFromYear (y0 + 1) \<le> d then y0 + 1
         else y0)"

definition DayWithinYear :: "int \<Rightarrow> int" where
  "DayWithinYear d = d - DayFromYear (YearFromDay d)"

definition MonthFromDay :: "int \<Rightarrow> int" where
  "MonthFromDay d =
     (let w = DayWithinYear d; l = InLeapYear (YearFromDay d)
      in if w < 31 then 0
         else if w < 59 + l then 1
         else if w < 90 + l then 2
         else if w < 120 + l then 3
         else if w < 151 + l then 4
         else if w < 181 + l then 5
         else if w < 212 + l then 6
         else if w < 243 + l then 7
         else if w < 273 + l then 8
         else if w < 304 + l then 9
         else if w < 334 + l then 10
         else 11)"

definition DateFromDay :: "int \<Rightarrow> int" where
  "DateFromDay d =
     (let w = DayWithinYear d; l = InLeapYear (YearFromDay d); m = MonthFromDay d
      in if m = 0 then w + 1
         else if m = 1 then w - 30
         else if m = 2 then w - 58 - l
         else if m = 3 then w - 89 - l
         else if m = 4 then w - 119 - l
         else if m = 5 then w - 150 - l
         else if m = 6 then w - 180 - l
         else if m = 7 then w - 211 - l
         else if m = 8 then w - 242 - l
         else if m = 9 then w - 272 - l
         else if m = 10 then w - 303 - l
         else w - 333 - l)"

definition getFullYear :: "zone \<Rightarrow> instant \<Rightarrow> int" where
  "getFullYear tz t = YearFromDay (local_day tz t)"

definition getMonth :: "zone \<Rightarrow> instant \<Rightarrow> int" where
  "getMonth tz t = MonthFromDay (local_day tz t)"

definition getDate :: "zone \<Rightarrow> instant \<Rightarrow> int" where
  "getDate tz t = DateFromDay (local_day tz t)"

text \<open>
  \<^verbatim>\<open>setDate(dt)\<close>: the day of the month of the local time is replaced, the year,
  the month and the time within the day are kept, and the local time is turned back
  into an instant. \<open>MakeDay\<close> counts on from the first day of the month, so a \<open>dt\<close>
  below 1 reaches into the months before. \<open>month_start l m\<close> is the day of the year
  on which month \<open>m\<close> starts, in a year with \<open>l\<close> leap days.
\<close>

definition month_start :: "int \<Rightarrow> int \<Rightarrow> int" where
  "month_start l m =
     (if m = 0 then 0 else if m = 1 then 31 else if m = 2 then 59 + l
      else if m = 3 then 90 + l else if m = 4 then 120 + l else if m = 5 then 151 + l
      else if m = 6 then 181 + l else if m = 7 then 212 + l else if m = 8 then 243 + l
      else if m = 9 then 273 + l else if m = 10 then 304 + l else 334 + l)"

definition MakeDay :: "int \<Rightarrow> int \<Rightarrow> int \<Rightarrow> int" where
  "MakeDay year month0 dt = DayFromYear year + month_start (InLeapYear year) month0 + dt - 1"

definition setDate :: "zone \<Rightarrow> instant \<Rightarrow> int \<Rightarrow> instant" where
  "setDate tz t dt =
     (let l = LocalTime tz t;
          d = l div msPerDay;
          newDate = MakeDay (YearFromDay d) (MonthFromDay d) dt * msPerDay + l mod msPerDay
      in UTC_time tz newDate)"

section \<open>Numbers\<close>

text \<open>
  The counters are JavaScript numbers: IEEE doubles that hold integers. Every integer of
  magnitude up to \<open>2 ^ 53\<close> is a double; beyond, a sum or a difference is rounded to
  the nearest double, which is a multiple of \<open>2 ^ (n - 53)\<close> for a magnitude of \<open>n\<close>
  bits, and a tie goes to the even multiple. (Results beyond the largest double, which
  JavaScript makes \<^verbatim>\<open>Infinity\<close>, are not modelled.)
\<close>

fun bit_length :: "nat \<Rightarrow> nat" where
  "bit_length n = (if n = 0 then 0 else Suc (bit_length (n div 2)))"

declare bit_length.simps [simp del]

definition num_round :: "int \<Rightarrow> int" where
  "num_round x =
     (let a = nat \<bar>x\<bar>
      in if a \<le> 2 ^ 53 then x
         else
           let u = 2 ^ (bit_length a - 53);
               q = a div u;
               r = a mod u;
               q' = (if 2 * r < u then q
                     else if u < 2 * r then q + 1
                     else if even q then q
                     else q + 1)
           in sgn x * int (q' * u))"

definition num_add :: "int \<Rightarrow> int \<Rightarrow> int" where
  "num_add a b = num_round (a + b)"

definition num_sub :: "int \<Rightarrow> int \<Rightarrow> int" where
  "num_sub a b = num_round (a - b)"

section \<open>Strings of numbers\<close>

text \<open>
  \<^verbatim>\<open>String(n)\<close> of an integer is its decimal digits, with a minus sign when it is
  negative; \<^verbatim>\<open>s.padStart(2, '0')\<close> puts zeros before a string shorter than two
  characters.
\<close>

definition digit_char :: "nat \<Rightarrow> char" where
  "digit_char n = ''0123456789'' ! n"

fun nat_digits :: "nat \<Rightarrow> string" where
  "nat_digits n =
     (if n < 10 then [digit_char n] else nat_digits (n div 10) @ [digit_char (n mod 10)])"

declare nat_digits.simps [simp del]

definition String_of :: "int \<Rightarrow> string" where
  "String_of i = (if i < 0 then CHR ''-'' # nat_digits (nat (- i)) else nat_digits (nat i))"

definition padStart2 :: "string \<Rightarrow> string" where
  "padStart2 s = replicate (2 - length s) CHR ''0'' @ s"

section \<open>The date key\<close>

text \<open>
  \<^verbatim>\<open>getDateKey\<close> of storage.ts: the year as it is, the month (from 1) and the day of
  the month padded to two characters, joined by hyphens. \<open>date_key\<close> is the template
  string, \<open>day_key\<close> the key of a local day number.
\<close>

definition date_key :: "int \<Rightarrow> int \<Rightarrow> int \<Rightarrow> string" where
  "date_key year month0 date =
     String_of year @ ''-'' @ padStart2 (String_of (month0 + 1)) @ ''-''
       @ padStart2 (String_of date)"

definition day_key :: "int \<Rightarrow> string" where
  "day_key d = date_key (YearFromDay d) (MonthFromDay d) (DateFromDay d)"

definition getDateKey :: "zone \<Rightarrow> instant \<Rightarrow> string" where
  "getDateKey tz t = date_key (getFullYear tz t) (getMonth tz t) (getDate tz t)"

text \<open>
  The shape \<^verbatim>\<open>YYYY-MM-DD\<close>: four digits, a hyphen, two digits, a hyphen, two
  digits.
\<close>

definition is_digit :: "char \<Rightarrow> bool" where
  "is_digit c = (c \<in> set ''0123456789'')"

definition is_YYYY_MM_DD :: "string \<Rightarrow> bool" where
  "is_YYYY_MM_DD s =
     (length s = 10 \<and> list_all is_digit (take 4 s) \<and> s ! 4 = CHR ''-''
      \<and> list_all is_digit (take 2 (drop 5 s)) \<and> s ! 7 = CHR ''-''
      \<and> list_all is_digit (drop 8 s))"

text \<open>Reading digits back: used in the proofs.\<close>

definition digit_value :: "char \<Rightarrow> nat" where
  "digit_value c = of_char c - 48"

definition digits_value :: "string \<Rightarrow> nat" where
  "digits_value s = foldl (\<lambda>a c. 10 * a + digit_value c) 0 s"

section \<open>The records of types.ts\<close>

datatype TimerMode = Focus | Break

datatype AmbientSoundType = Rain | Cafe | White

text \<open>
  \<^verbatim>\<open>history\<close> is a JavaScript object with string keys: its entries keep the order
  in which the keys were first set, and setting a key that is there replaces its value in
  place (\<open>AList.update\<close>). A record read from storage may lack the field, so it is
  optional.
\<close>

type_synonym history = "(string \<times> int) list"

record UserStats =
  todaySessions :: int
  weekSessions :: int
  dailyGoal :: int
  lastUpdate :: instant
  weekStartDate :: instant
  totalMinutesToday :: int
  totalMinutesWeek :: int
  longestStreak :: int
  currentStreak :: int
  history :: "history option"

record AppSettings =
  darkMode :: bool
  ambientSound :: bool
  ambientSoundType :: AmbientSoundType
  ambientVolume :: real
  focusDuration :: int
  breakDuration :: int

text \<open>The object a stored settings blob parses to: any key may be missing.\<close>

record StoredSettings =
  stored_darkMode :: "bool option"
  stored_ambientSound :: "bool option"
  stored_ambientSoundType :: "AmbientSoundType option"
  stored_ambientVolume :: "real option"
  stored_focusDuration :: "int option"
  stored_breakDuration :: "int option"

section \<open>Storage\<close>

text \<open>
  What \<^verbatim>\<open>localStorage.getItem(key)\<close> holds, by what the code can do with it:
  \<open>Absent\<close> is \<^verbatim>\<open>null\<close> or the empty string (both fail the test
  \<^verbatim>\<open>!stored\<close>), \<open>Unparsable\<close> a string on which \<^verbatim>\<open>JSON.parse\<close> throws a
  SyntaxError, \<open>ParsedNull\<close> the string \<^verbatim>\<open>null\<close>, and \<open>Parsed v\<close> a string that
  parses to the well-formed object \<open>v\<close>: every field is there with the type that
  types.ts gives it (the history apart, which may be missing). A string that parses to
  anything else has no case here. \<^verbatim>\<open>JSON.stringify\<close> followed by \<^verbatim>\<open>JSON.parse\<close>
  gives the object back, so \<^verbatim>\<open>setItem(key, JSON.stringify(v))\<close> leaves \<open>Parsed v\<close>.

  Besides the two storage keys the module has one mutable object of its own:
  \<^verbatim>\<open>mockHistory\<close>, which \<^verbatim>\<open>DEFAULT_STATS.history\<close> refers to and every shallow copy
  \<^verbatim>\<open>{ ...DEFAULT_STATS }\<close> shares.
\<close>

datatype 'a item = Absent | Unparsable | ParsedNull | Parsed 'a

datatype error = SyntaxError | TypeError

record env =
  mockHistory :: history
  statsItem :: "UserStats item"
  settingsItem :: "StoredSettings item"

definition saveStats :: "UserStats \<Rightarrow> env \<Rightarrow> env" where
  "saveStats s e = e\<lparr>statsItem := Parsed s\<rparr>"

section \<open>The default records\<close>

text \<open>
  \<^verbatim>\<open>generateMockHistory\<close>: for \<open>i\<close> from 1 to 10, a date \<^verbatim>\<open>d\<close> of the instant of
  the call is moved by \<^verbatim>\<open>d.setDate(today.getDate() - i)\<close>, and its key gets the count
  \<^verbatim>\<open>mockCounts[i - 1] || 2\<close>. \<open>today\<close> is the instant of the call (both
  \<^verbatim>\<open>new Date()\<close> read it). Where the zone skipped a calendar day, two values of
  \<open>i\<close> give the same key, and the later count replaces the earlier one.
\<close>

definition mockCounts :: "int list" where
  "mockCounts = [5, 2, 6, 3, 4, 1, 7, 3, 2, 5]"

definition mock_entry :: "zone \<Rightarrow> instant \<Rightarrow> nat \<Rightarrow> history \<Rightarrow> history" where
  "mock_entry tz today i h =
     (let d = setDate tz today (getDate tz today - int i);
          dateStr = getDateKey tz d;
          c = mockCounts ! (i - 1)
      in AList.update dateStr (if c = 0 then 2 else c) h)"

definition generateMockHistory :: "zone \<Rightarrow> instant \<Rightarrow> history" where
  "generateMockHistory tz today = fold (mock_entry tz today) [1..<11] []"

text \<open>
  The zone is regular before \<open>today\<close> when each of the ten \<^verbatim>\<open>setDate\<close> calls lands on
  the calendar day it asks for: the day \<open>i\<close> days before the local day of \<open>today\<close>.
\<close>

definition days_back_regular :: "zone \<Rightarrow> instant \<Rightarrow> bool" where
  "days_back_regular tz today =
     list_all (\<lambda>i. local_day tz (setDate tz today (getDate tz today - int i))
                     = local_day tz today - int i) [1..<11]"

text \<open>
  The module constants, computed when the module is loaded, at the instant \<open>boot\<close>
  (the sums and products here are of small integers, and exact).
  \<open>DEFAULT_STATS tz boot mh\<close> is the object \<^verbatim>\<open>DEFAULT_STATS\<close> when the shared
  \<^verbatim>\<open>mockHistory\<close> object holds \<open>mh\<close>.
\<close>

definition sessionsToday :: int where
  "sessionsToday = 3"

definition sessionsPast6Days :: "zone \<Rightarrow> instant \<Rightarrow> int" where
  "sessionsPast6Days tz boot =
     foldl (\<lambda>a b. a + b) 0 (take 6 (map snd (generateMockHistory tz boot)))"

definition totalWeekSessions :: "zone \<Rightarrow> instant \<Rightarrow> int" where
  "totalWeekSessions tz boot = sessionsToday + sessionsPast6Days tz boot"

definition DEFAULT_STATS :: "zone \<Rightarrow> instant \<Rightarrow> history \<Rightarrow> UserStats" where
  "DEFAULT_STATS tz boot mh =
     \<lparr>todaySessions = sessionsToday,
      weekSessions = totalWeekSessions tz boot,
      dailyGoal = 4,
      lastUpdate = boot,
      weekStartDate = boot - 4 * 24 * 60 * 60 * 1000,
      totalMinutesToday = sessionsToday * 25,
      totalMinutesWeek = totalWeekSessions tz boot * 25,
      longestStreak = 12,
      currentStreak = 5,
      history = Some mh\<rparr>"

definition DEFAULT_SETTINGS :: AppSettings where
  "DEFAULT_SETTINGS =
     \<lparr>darkMode = False,
      ambientSound = False,
      ambientSoundType = Rain,
      ambientVolume = 1 / 2,
      focusDuration = 25,
      breakDuration = 5\<rparr>"

text \<open>The state of the module right after it is loaded at \<open>boot\<close>, over given storage.\<close>

definition module_loaded ::
  "zone \<Rightarrow> instant \<Rightarrow> UserStats item \<Rightarrow> StoredSettings item \<Rightarrow> env" where
  "module_loaded tz boot si ti =
     \<lparr>mockHistory = generateMockHistory tz boot, statsItem = si, settingsItem = ti\<rparr>"

section \<open>getStats\<close>

text \<open>
  Lines 61 to 82: reading the stored record. The result is the record, whether its
  \<^verbatim>\<open>history\<close> is the shared \<^verbatim>\<open>mockHistory\<close> object, and the storage. A missing
  item, and anything thrown inside the \<^verbatim>\<open>try\<close> (by \<^verbatim>\<open>JSON.parse\<close>, or by
  reading \<^verbatim>\<open>stats.history\<close> of \<^verbatim>\<open>null\<close>), give a copy of the defaults, which is
  saved. A record without history entries gets a generated history and the streaks set.
\<close>

definition load_stats ::
  "zone \<Rightarrow> instant \<Rightarrow> instant \<Rightarrow> env \<Rightarrow> (UserStats \<times> bool) \<times> env" where
  "load_stats tz boot now e =
     (let fallback = DEFAULT_STATS tz boot (mockHistory e)
      in case statsItem e of
           Absent \<Rightarrow> ((fallback, True), saveStats fallback e)
         | Unparsable \<Rightarrow> ((fallback, True), saveStats fallback e)
         | ParsedNull \<Rightarrow> ((fallback, True), saveStats fallback e)
         | Parsed s \<Rightarrow>
             if history s = None \<or> history s = Some [] then
               let s' = s\<lparr>history := Some (generateMockHistory tz now),
                          currentStreak := 5,
                          longestStreak := max (longestStreak s) 12\<rparr>
               in ((s', False), saveStats s' e)
             else ((s, False), e))"

text \<open>\<^verbatim>\<open>Math.ceil(a / b)\<close> on integers.\<close>

definition ceil_div :: "int \<Rightarrow> int \<Rightarrow> int" where
  "ceil_div a b = - ((- a) div b)"

text \<open>
  Lines 84 to 113: the daily reset. Writing \<^verbatim>\<open>stats.history[lastUpdateStr]\<close> throws
  a TypeError when there is no history object; when the object is the shared one, the
  write shows in \<^verbatim>\<open>mockHistory\<close> too.
\<close>

definition daily_reset ::
  "zone \<Rightarrow> instant \<Rightarrow> UserStats \<times> bool \<Rightarrow> env \<Rightarrow> (error + UserStats) \<times> env" where
  "daily_reset tz now sa e =
     (let s = fst sa; shared = snd sa;
          todayStr = getDateKey tz now;
          lastUpdateStr = getDateKey tz (lastUpdate s)
      in if todayStr \<noteq> lastUpdateStr then
           (case history s of
              None \<Rightarrow> (Inl TypeError, e)
            | Some h \<Rightarrow>
                let h' = AList.update lastUpdateStr (todaySessions s) h;
                    e' = (if shared then e\<lparr>mockHistory := h'\<rparr> else e);
                    diffTime = \<bar>now - lastUpdate s\<bar>;
                    diffDays = ceil_div diffTime msPerDay;
                    streak = (if diffDays \<le> 1
                              then (if todaySessions s > 0 then num_add (currentStreak s) 1
                                    else currentStreak s)
                              else 0);
                    longest = (if streak > longestStreak s then streak else longestStreak s);
                    s' = s\<lparr>history := Some h',
                           currentStreak := streak,
                           longestStreak := longest,
                           todaySessions := 0,
                           totalMinutesToday := 0,
                           lastUpdate := now\<rparr>
                in (Inr s', saveStats s' e'))
         else (Inr s, e))"

text \<open>Lines 115 to 123: the weekly reset.\<close>

definition weekly_reset :: "instant \<Rightarrow> UserStats \<Rightarrow> env \<Rightarrow> UserStats \<times> env" where
  "weekly_reset now s e =
     (let diffWeekDays = (now - weekStartDate s) div msPerDay
      in if diffWeekDays \<ge> 7 then
           let s' = s\<lparr>weekSessions := 0, totalMinutesWeek := 0, weekStartDate := now\<rparr>
           in (s', saveStats s' e)
         else (s, e))"

text \<open>
  \<^verbatim>\<open>getStats\<close> at the instant \<open>now\<close>, in a module loaded at \<open>boot\<close>: the value it
  returns, or the error it throws, and the state it leaves. Every \<^verbatim>\<open>new Date()\<close> of
  one call reads the same instant \<open>now\<close>.
\<close>

definition getStats ::
  "zone \<Rightarrow> instant \<Rightarrow> instant \<Rightarrow> env \<Rightarrow> (error + UserStats) \<times> env" where
  "getStats tz boot now e =
     (let (sa, e1) = load_stats tz boot now e
      in case daily_reset tz now sa e1 of
           (Inl err, e2) \<Rightarrow> (Inl err, e2)
         | (Inr s, e2) \<Rightarrow> (let (s', e3) = weekly_reset now s e2 in (Inr s', e3)))"

section \<open>getSettings\<close>

text \<open>
  \<^verbatim>\<open>{ ...DEFAULT_SETTINGS, ...JSON.parse(stored) }\<close>: every key the stored object has
  replaces the default; spreading \<^verbatim>\<open>null\<close> adds nothing. \<^verbatim>\<open>JSON.parse\<close> is
  called outside any \<^verbatim>\<open>try\<close>.
\<close>

definition spread_settings :: "AppSettings \<Rightarrow> StoredSettings \<Rightarrow> AppSettings" where
  "spread_settings d p =
     \<lparr>darkMode = (case stored_darkMode p of Some v \<Rightarrow> v | None \<Rightarrow> darkMode d),
      ambientSound = (case stored_ambientSound p of Some v \<Rightarrow> v | None \<Rightarrow> ambientSound d),
      ambientSoundType =
        (case stored_ambientSoundType p of Some v \<Rightarrow> v | None \<Rightarrow> ambientSoundType d),
      ambientVolume = (case stored_ambientVolume p of Some v \<Rightarrow> v | None \<Rightarrow> ambientVolume d),
      focusDuration = (case stored_focusDuration p of Some v \<Rightarrow> v | None \<Rightarrow> focusDuration d),
      breakDuration = (case stored_breakDuration p of Some v \<Rightarrow> v | None \<Rightarrow> breakDuration d)\<rparr>"

definition getSettings :: "env \<Rightarrow> error + AppSettings" where
  "getSettings e =
     (case settingsItem e of
        Absent \<Rightarrow> Inr DEFAULT_SETTINGS
      | Unparsable \<Rightarrow> Inl SyntaxError
      | ParsedNull \<Rightarrow> Inr DEFAULT_SETTINGS
      | Parsed p \<Rightarrow> Inr (spread_settings DEFAULT_SETTINGS p))"

section \<open>The application state (App)\<close>

record AppState =
  settings :: AppSettings
  mode :: TimerMode
  timeLeft :: int
  isActive :: bool
  stats :: UserStats
  store :: env

definition handleSwitchMode :: "TimerMode \<Rightarrow> AppState \<Rightarrow> AppState" where
  "handleSwitchMode newMode st =
     st\<lparr>isActive := False,
        mode := newMode,
        timeLeft := (if newMode = Focus then focusDuration (settings st)
                     else breakDuration (settings st)) * 60\<rparr>"

text \<open>
  The record \<^verbatim>\<open>newStats\<close> that \<^verbatim>\<open>completeSession\<close> builds in focus mode (the
  specification's \<^verbatim>\<open>recordSession\<close>).
\<close>

definition recordSession :: "UserStats \<Rightarrow> int \<Rightarrow> instant \<Rightarrow> UserStats" where
  "recordSession s minutesCompleted now =
     s\<lparr>todaySessions := num_add (todaySessions s) 1,
       weekSessions := num_add (weekSessions s) 1,
       totalMinutesToday := num_add (totalMinutesToday s) minutesCompleted,
       totalMinutesWeek := num_add (totalMinutesWeek s) minutesCompleted,
       lastUpdate := now\<rparr>"

definition completeSession :: "instant \<Rightarrow> AppState \<Rightarrow> AppState" where
  "completeSession now st =
     (if mode st = Focus then
        let minutesCompleted = focusDuration (settings st);
            newStats = recordSession (stats st) minutesCompleted now
        in handleSwitchMode Break (st\<lparr>stats := newStats, store := saveStats newStats (store st)\<rparr>)
      else handleSwitchMode Focus st)"

text \<open>A run of completed focus sessions, each with its minutes and its instant.\<close>

definition recordSessions :: "UserStats \<Rightarrow> (int \<times> instant) list \<Rightarrow> UserStats" where
  "recordSessions s calls = foldl (\<lambda>a c. recordSession a (fst c) (snd c)) s calls"

text \<open>The two buttons beside the daily goal (lines 508 and 510).\<close>

definition decrementGoal :: "AppState \<Rightarrow> AppState" where
  "decrementGoal st =
     (let s = stats st; ns = s\<lparr>dailyGoal := max 1 (num_sub (dailyGoal s) 1)\<rparr>
      in st\<lparr>stats := ns, store := saveStats ns (store st)\<rparr>)"

definition incrementGoal :: "AppState \<Rightarrow> AppState" where
  "incrementGoal st =
     (let s = stats st; ns = s\<lparr>dailyGoal := num_add (dailyGoal s) 1\<rparr>
      in st\<lparr>stats := ns, store := saveStats ns (store st)\<rparr>)"

section \<open>Observing a call\<close>

text \<open>
  What a call of \<open>getStats\<close> returned, if it returned, and the record storage holds
  after it.
\<close>

definition returned :: "(error + UserStats) \<times> env \<Rightarrow> UserStats option" where
  "returned x = (case fst x of Inr s \<Rightarrow> Some s | Inl err \<Rightarrow> None)"

definition persisted :: "(error + UserStats) \<times> env \<Rightarrow> UserStats option" where
  "persisted x = (case statsItem (snd x) of Parsed s \<Rightarrow> Some s | _ \<Rightarrow> None)"

section \<open>Sample values\<close>

text \<open>
  A zone with no offset; a zone that is ten hours behind UTC until 2011-12-30 at 10:00
  UTC and fourteen hours ahead from then on, so that its calendar has no 30 December
  2011; a module loaded on 2024-01-01 at 09:00 UTC; a record as the
  application stores it, last updated on 2024-01-01 at 10:00 UTC in a week that started
  on 2023-12-30 at 10:00 UTC; the same record after two sessions that day; a record from
  before the history was kept; and a record whose \<open>todaySessions\<close> is \<open>2 ^ 53\<close>.
\<close>

definition utc :: zone where
  "utc = \<lparr>utc_offset = (\<lambda>t. 0), local_offset = (\<lambda>l. 0)\<rparr>"

definition skipping :: zone where
  "skipping =
     \<lparr>utc_offset = (\<lambda>t. if t < 1325239200000 then - 36000000 else 50400000),
      local_offset = (\<lambda>l. if l < 1325289600000 then - 36000000 else 50400000)\<rparr>"

definition sample_boot :: instant where
  "sample_boot = 1704099600000"

definition sample_stats :: UserStats where
  "sample_stats =
     \<lparr>todaySessions = 0, weekSessions = 6, dailyGoal = 4,
      lastUpdate = 1704103200000, weekStartDate = 1703930400000,
      totalMinutesToday = 0, totalMinutesWeek = 150,
      longestStreak = 5, currentStreak = 3,
      history = Some [(''2023-12-31'', 2)]\<rparr>"

definition sample_busy :: UserStats where
  "sample_busy = sample_stats\<lparr>todaySessions := 2, totalMinutesToday := 50\<rparr>"

definition sample_legacy :: UserStats where
  "sample_legacy = sample_stats\<lparr>longestStreak := 9, currentStreak := 8, history := Some []\<rparr>"

definition sample_full :: UserStats where
  "sample_full = sample_stats\<lparr>todaySessions := 9007199254740992\<rparr>"

definition stored_env :: "UserStats item \<Rightarrow> env" where
  "stored_env i = module_loaded utc sample_boot i Absent"

definition sample_app :: AppState where
  "sample_app =
     \<lparr>settings = DEFAULT_SETTINGS, mode = Focus, timeLeft = 0, isActive = True,
      stats = sample_stats, store = stored_env (Parsed sample_stats)\<rparr>"

section \<open>The calendar and the key: lemmas\<close>

subsection \<open>Years\<close>

text \<open>
  A year has 365 days and one more in a leap year, and \<open>YearFromDay\<close> is the year
  ECMA-262 asks for: the one whose first day is the last on or before the day.
\<close>

lemma div_succ:
  fixes a n :: int
  assumes "1 < n"
  shows "(a + 1) div n = a div n + (if (a + 1) mod n = 0 then 1 else 0)"
proof -
  define q where "q = a div n"
  define r where "r = a mod n"
  have a: "a = n * q + r" by (simp add: q_def r_def)
  have r: "0 \<le> r" "r < n" using assms by (simp_all add: r_def)
  show ?thesis
  proof (cases "r = n - 1")
    case True
    then have e: "a + 1 = n * (q + 1) + 0" using a by (simp add: algebra_simps)
    have "(a + 1) div n = q + 1" using assms by (subst e) simp
    moreover have "(a + 1) mod n = 0" by (subst e) simp
    ultimately show ?thesis by (simp add: q_def)
  next
    case False
    then have r1: "0 \<le> r + 1" "r + 1 < n" using r by linarith+
    have e: "a + 1 = n * q + (r + 1)" using a by simp
    have "(a + 1) div n = q" using r1 e by (rule_tac int_div_pos_eq) auto
    moreover have "(a + 1) mod n = r + 1" using r1 e by (rule_tac int_mod_pos_eq) auto
    ultimately show ?thesis using r by (simp add: q_def)
  qed
qed

lemma mod_shift: fixes y :: int shows "(y - n * k) mod n = y mod n"
  by (metis mod_mult_self2 diff_add_cancel)

lemma leap_step:
  fixes y :: int
  assumes "1 < n"
  shows "(y + 1 - (n * k + 1)) div n = (y - (n * k + 1)) div n + (if y mod n = 0 then 1 else 0)"
proof -
  have "(y - (n * k + 1) + 1) mod n = y mod n"
    using mod_shift [of y n k] by (simp add: algebra_simps)
  then show ?thesis
    using div_succ [OF assms, of "y - (n * k + 1)"] by (simp add: algebra_simps)
qed

lemma DayFromYear_step: "DayFromYear (y + 1) = DayFromYear y + 365 + InLeapYear y"
proof -
  have a: "(y + 1 - 1969) div 4 = (y - 1969) div 4 + (if y mod 4 = 0 then 1 else 0)"
    using leap_step [of 4 y 492] by simp
  have b: "(y + 1 - 1901) div 100 = (y - 1901) div 100 + (if y mod 100 = 0 then 1 else 0)"
    using leap_step [of 100 y 19] by simp
  have c: "(y + 1 - 1601) div 400 = (y - 1601) div 400 + (if y mod 400 = 0 then 1 else 0)"
    using leap_step [of 400 y 4] by simp
  have d: "y mod 4 = 0" if "y mod 100 = 0"
    using that mod_mod_cancel [of 4 100 y] by simp
  have e: "y mod 100 = 0" if "y mod 400 = 0"
    using that mod_mod_cancel [of 100 400 y] by simp
  show ?thesis
    unfolding DayFromYear_def InLeapYear_def a b c using d e by auto
qed

lemma div_sandwich:
  fixes a n :: int
  assumes "0 < n"
  shows "n * (a div n) \<le> a" and "a \<le> n * (a div n) + (n - 1)"
proof -
  have "a = n * (a div n) + a mod n" by simp
  moreover have "0 \<le> a mod n" "a mod n < n" using assms by simp_all
  ultimately show "n * (a div n) \<le> a" "a \<le> n * (a div n) + (n - 1)" by linarith+
qed

lemma DayFromYear_bounds:
  "146097 * y - 287811596 \<le> 400 * DayFromYear y"
  "400 * DayFromYear y \<le> 146097 * y - 287810501"
proof -
  define a where "a = (y - 1969) div 4"
  define b where "b = (y - 1901) div 100"
  define c where "c = (y - 1601) div 400"
  have a: "4 * a \<le> y - 1969" "y - 1969 \<le> 4 * a + 3"
    using div_sandwich [of 4 "y - 1969"] by (simp_all add: a_def)
  have b: "100 * b \<le> y - 1901" "y - 1901 \<le> 100 * b + 99"
    using div_sandwich [of 100 "y - 1901"] by (simp_all add: b_def)
  have c: "400 * c \<le> y - 1601" "y - 1601 \<le> 400 * c + 399"
    using div_sandwich [of 400 "y - 1601"] by (simp_all add: c_def)
  have f: "DayFromYear y = 365 * y - 719050 + a - b + c"
    by (simp add: DayFromYear_def a_def b_def c_def)
  show "146097 * y - 287811596 \<le> 400 * DayFromYear y"
    using a b c f by linarith
  show "400 * DayFromYear y \<le> 146097 * y - 287810501"
    using a b c f by linarith
qed

lemma InLeapYear_range: "InLeapYear y = 0 \<or> InLeapYear y = 1"
  by (simp add: InLeapYear_def)

lemma YearFromDay_bounds:
  "DayFromYear (YearFromDay d) \<le> d" "d < DayFromYear (YearFromDay d + 1)"
proof -
  define y0 where "y0 = 1970 + (400 * d) div 146097"
  define q where "q = (400 * d) div 146097"
  have q: "146097 * q \<le> 400 * d" "400 * d \<le> 146097 * q + 146096"
    using div_sandwich [of 146097 "400 * d"] by (simp_all add: q_def)
  have y0: "y0 = 1970 + q" by (simp add: y0_def q_def)
  have u: "400 * DayFromYear (y0 - 1) \<le> 146097 * y0 - 287956598"
    using DayFromYear_bounds(2) [of "y0 - 1"] by (simp add: algebra_simps)
  have l: "146097 * y0 - 287519402 \<le> 400 * DayFromYear (y0 + 2)"
    using DayFromYear_bounds(1) [of "y0 + 2"] by (simp add: algebra_simps)
  have lo: "DayFromYear (y0 - 1) \<le> d" using u q y0 by linarith
  have hi: "d < DayFromYear (y0 + 2)" using l q y0 by linarith
  have s: "y0 + 1 + 1 = y0 + 2" "y0 - 1 + 1 = y0" by simp_all
  show "DayFromYear (YearFromDay d) \<le> d"
    unfolding YearFromDay_def y0_def [symmetric] Let_def using lo by simp
  show "d < DayFromYear (YearFromDay d + 1)"
    unfolding YearFromDay_def y0_def [symmetric] Let_def using hi by (simp add: s)
qed

lemma DayFromYear_strict_mono:
  assumes "y < z"
  shows "DayFromYear y < DayFromYear z"
  using DayFromYear_bounds(2) [of y] DayFromYear_bounds(1) [of z] assms by linarith

text \<open>So \<open>YearFromDay d\<close> is the largest year that starts on or before day \<open>d\<close>.\<close>

lemma YearFromDay_largest:
  assumes "DayFromYear y \<le> d"
  shows "y \<le> YearFromDay d"
proof (rule ccontr)
  assume "\<not> y \<le> YearFromDay d"
  then have "YearFromDay d + 1 \<le> y" by simp
  then have "DayFromYear (YearFromDay d + 1) \<le> DayFromYear y"
    using DayFromYear_strict_mono [of "YearFromDay d + 1" y] by (cases "YearFromDay d + 1 = y") auto
  then show False using assms YearFromDay_bounds(2) [of d] by linarith
qed

subsection \<open>Months and days of the month\<close>

text \<open>
  The fields are in range, and a day number can be read back from its three fields: no
  two days share them.
\<close>

lemma DayWithinYear_range:
  "0 \<le> DayWithinYear d" "DayWithinYear d < 365 + InLeapYear (YearFromDay d)"
  using YearFromDay_bounds [of d] DayFromYear_step [of "YearFromDay d"]
  by (simp_all add: DayWithinYear_def)

lemma MonthFromDay_range: "0 \<le> MonthFromDay d" "MonthFromDay d \<le> 11"
  by (simp_all add: MonthFromDay_def Let_def)

lemma DateFromDay_eq:
  "DateFromDay d = DayWithinYear d - month_start (InLeapYear (YearFromDay d)) (MonthFromDay d) + 1"
  by (simp add: DateFromDay_def month_start_def Let_def)

lemma DateFromDay_range: "1 \<le> DateFromDay d" "DateFromDay d \<le> 31"
  using DayWithinYear_range [of d] InLeapYear_range [of "YearFromDay d"]
  by (auto simp add: DateFromDay_def MonthFromDay_def Let_def)

lemma day_from_fields:
  "d = DayFromYear (YearFromDay d)
       + month_start (InLeapYear (YearFromDay d)) (MonthFromDay d) + DateFromDay d - 1"
  by (simp add: DateFromDay_eq DayWithinYear_def)

lemma fields_inj:
  assumes "YearFromDay d = YearFromDay e" "MonthFromDay d = MonthFromDay e"
    "DateFromDay d = DateFromDay e"
  shows "d = e"
  using day_from_fields [of d] day_from_fields [of e] assms by simp

subsection \<open>Moving the day of the month\<close>

text \<open>
  Setting the day of the month to \<open>i\<close> less than it is moves the local time back by
  \<open>i\<close> days exactly; what day the result falls on is then up to the zone.
\<close>

lemma MakeDay_back:
  "MakeDay (YearFromDay d) (MonthFromDay d) (DateFromDay d - i) = d - i"
  using day_from_fields [of d] by (simp add: MakeDay_def)

lemma setDate_back:
  "setDate tz t (getDate tz t - i) = UTC_time tz (LocalTime tz t - i * msPerDay)"
proof -
  let ?l = "LocalTime tz t"
  have "(?l div msPerDay - i) * msPerDay + ?l mod msPerDay = ?l - i * msPerDay"
    by (simp add: algebra_simps)
  then show ?thesis
    by (simp add: setDate_def getDate_def local_day_def Let_def MakeDay_back)
qed

subsection \<open>Numbers\<close>

text \<open>
  Up to \<open>2 ^ 53\<close> nothing is rounded; beyond, rounding keeps the sign and never
  reaches 0.
\<close>

lemma num_round_exact: "\<bar>x\<bar> \<le> 2 ^ 53 \<Longrightarrow> num_round x = x"
  by (simp add: num_round_def Let_def nat_le_iff)

lemma num_add_exact: "\<bar>a + b\<bar> \<le> 2 ^ 53 \<Longrightarrow> num_add a b = a + b"
  by (simp add: num_add_def num_round_exact)

lemma num_sub_exact: "\<bar>a - b\<bar> \<le> 2 ^ 53 \<Longrightarrow> num_sub a b = a - b"
  by (simp add: num_sub_def num_round_exact)

lemma bit_length_lower: "0 < n \<Longrightarrow> 2 ^ (bit_length n - 1) \<le> n"
proof (induction n rule: bit_length.induct)
  case (1 n)
  show ?case
  proof (cases "n div 2 = 0")
    case True
    then have "bit_length (n div 2) = 0" by (simp add: bit_length.simps)
    then show ?thesis using "1.prems" by (subst bit_length.simps) simp
  next
    case False
    then have h: "2 ^ (bit_length (n div 2) - 1) \<le> n div 2"
      using "1.IH" "1.prems" by simp
    have p: "0 < bit_length (n div 2)"
      using False by (subst bit_length.simps) simp
    have "2 ^ (bit_length n - 1) = (2 :: nat) ^ bit_length (n div 2)"
      using "1.prems" by (subst bit_length.simps) simp
    also have "\<dots> = 2 * 2 ^ (bit_length (n div 2) - 1)"
      using p by (cases "bit_length (n div 2)") simp_all
    also have "\<dots> \<le> 2 * (n div 2)" using h by simp
    also have "\<dots> \<le> n" by simp
    finally show ?thesis .
  qed
qed

lemma num_round_pos:
  assumes "1 \<le> x"
  shows "1 \<le> num_round x"
proof (cases "nat \<bar>x\<bar> \<le> 2 ^ 53")
  case True
  then show ?thesis using assms by (simp add: num_round_def Let_def)
next
  case False
  define a where "a = nat \<bar>x\<bar>"
  define u :: nat where "u = 2 ^ (bit_length a - 53)"
  have a: "0 < a" using assms by (simp add: a_def)
  have "u \<le> 2 ^ (bit_length a - 1)"
    unfolding u_def by (rule power_increasing) simp_all
  then have ua: "u \<le> a" using bit_length_lower [OF a] by simp
  have up: "0 < u" by (simp add: u_def)
  have q: "1 \<le> a div u" using ua up by (simp add: div_greater_zero_iff Suc_le_eq)
  define q' where "q' = (if 2 * (a mod u) < u then a div u
      else if u < 2 * (a mod u) then a div u + 1
      else if even (a div u) then a div u else a div u + 1)"
  have "1 \<le> q'" using q by (simp add: q'_def)
  then have "1 \<le> q' * u" using up by (simp add: Suc_le_eq)
  then have "1 \<le> int (q' * u)" by linarith
  moreover have "num_round x = int (q' * u)"
    using False assms by (simp add: num_round_def Let_def a_def u_def q'_def)
  ultimately show ?thesis by simp
qed

text \<open>The first integer that is not a double, \<open>2 ^ 53 + 1\<close>, is rounded to \<open>2 ^ 53\<close>.\<close>

lemma bit_length_54: "bit_length 9007199254740993 = 54"
  by (simp add: bit_length.simps)

lemma num_round_odd: "num_round 9007199254740993 = 9007199254740992"
  by (simp add: num_round_def Let_def bit_length_54)

subsection \<open>Digits\<close>

text \<open>
  A number can be read back from its digits, so \<open>String_of\<close> is injective, and so is
  padding to two characters on numbers that are not negative.
\<close>

lemma lt10_cases:
  fixes n :: nat
  assumes "n < 10"
  shows "n \<in> {0, 1, 2, 3, 4, 5, 6, 7, 8, 9}"
  using assms by auto

lemma digit_char_props:
  assumes "n < 10"
  shows "digit_value (digit_char n) = n" and "is_digit (digit_char n)"
    and "digit_char n \<noteq> CHR ''-''"
  using lt10_cases [OF assms]
  by (auto simp add: digit_char_def digit_value_def is_digit_def)

lemma digits_value_snoc: "digits_value (s @ [c]) = 10 * digits_value s + digit_value c"
  by (simp add: digits_value_def)

lemma digits_value_nat_digits: "digits_value (nat_digits n) = n"
proof (induction n rule: nat_digits.induct)
  case (1 n)
  show ?case
  proof (cases "n < 10")
    case True
    then show ?thesis
      by (subst nat_digits.simps) (simp add: digits_value_def digit_char_props)
  next
    case False
    then show ?thesis
      using "1.IH" by (subst nat_digits.simps) (simp add: digits_value_snoc digit_char_props)
  qed
qed

lemma nat_digits_inj: "nat_digits m = nat_digits n \<Longrightarrow> m = n"
  by (metis digits_value_nat_digits)

lemma nat_digits_all_digits: "list_all is_digit (nat_digits n)"
proof (induction n rule: nat_digits.induct)
  case (1 n)
  show ?case
  proof (cases "n < 10")
    case True
    then show ?thesis by (subst nat_digits.simps) (simp add: digit_char_props)
  next
    case False
    then show ?thesis
      using "1.IH" by (subst nat_digits.simps) (simp add: digit_char_props)
  qed
qed

lemma nat_digits_nonempty: "nat_digits n \<noteq> []"
  by (subst nat_digits.simps) simp

lemma is_digit_not_minus: "is_digit c \<Longrightarrow> c \<noteq> CHR ''-''"
  by (auto simp add: is_digit_def)

lemma nat_digits_no_minus: "CHR ''-'' \<notin> set (nat_digits n)"
proof
  assume "CHR ''-'' \<in> set (nat_digits n)"
  then have "is_digit CHR ''-''"
    using nat_digits_all_digits [of n] by (simp add: list_all_iff)
  then show False using is_digit_not_minus by blast
qed

lemma hd_nat_digits: "hd (nat_digits n) \<noteq> CHR ''-''"
  using nat_digits_no_minus [of n] nat_digits_nonempty [of n] by (metis list.set_sel(1))

lemma String_of_inj: "String_of i = String_of j \<Longrightarrow> i = j"
proof -
  assume e: "String_of i = String_of j"
  have neg: "hd (String_of k) = CHR ''-'' \<longleftrightarrow> k < 0" for k
    using hd_nat_digits [of "nat k"] by (simp add: String_of_def)
  have s: "i < 0 \<longleftrightarrow> j < 0" using e neg by metis
  show "i = j"
  proof (cases "i < 0")
    case True
    then have "nat (- i) = nat (- j)" using e s by (simp add: String_of_def nat_digits_inj)
    then show ?thesis using True s by linarith
  next
    case False
    then have "nat i = nat j" using e s by (simp add: String_of_def nat_digits_inj)
    then show ?thesis using False s by linarith
  qed
qed

lemma length_nat_digits_1: "n < 10 \<Longrightarrow> length (nat_digits n) = 1"
  by (subst nat_digits.simps) simp

lemma length_nat_digits_2: "10 \<le> n \<Longrightarrow> n < 100 \<Longrightarrow> length (nat_digits n) = 2"
  by (subst nat_digits.simps) (simp add: length_nat_digits_1)

lemma length_nat_digits_3: "100 \<le> n \<Longrightarrow> n < 1000 \<Longrightarrow> length (nat_digits n) = 3"
  by (subst nat_digits.simps) (simp add: length_nat_digits_2)

lemma length_nat_digits_4: "1000 \<le> n \<Longrightarrow> n < 10000 \<Longrightarrow> length (nat_digits n) = 4"
  by (subst nat_digits.simps) (simp add: length_nat_digits_3)

lemma length_padStart2:
  assumes "0 \<le> i" "i < 100"
  shows "length (padStart2 (String_of i)) = 2"
proof (cases "i < 10")
  case True
  then show ?thesis using assms by (simp add: padStart2_def String_of_def length_nat_digits_1)
next
  case False
  then show ?thesis using assms by (simp add: padStart2_def String_of_def length_nat_digits_2)
qed

lemma digits_value_zeros: "digits_value (replicate k CHR ''0'' @ s) = digits_value s"
  by (induction k) (simp_all add: digits_value_def digit_value_def)

lemma padStart2_value: "0 \<le> i \<Longrightarrow> digits_value (padStart2 (String_of i)) = nat i"
  by (simp add: padStart2_def String_of_def digits_value_zeros digits_value_nat_digits)

lemma padStart2_inj:
  assumes "0 \<le> i" "0 \<le> j" "padStart2 (String_of i) = padStart2 (String_of j)"
  shows "i = j"
  using assms padStart2_value [of i] padStart2_value [of j] by simp

lemma is_digit_zero: "is_digit CHR ''0''"
  by (simp add: is_digit_def)

lemma padStart2_digits: "0 \<le> i \<Longrightarrow> list_all is_digit (padStart2 (String_of i))"
  using nat_digits_all_digits [of "nat i"]
  by (auto simp add: padStart2_def String_of_def list_all_iff is_digit_zero)

subsection \<open>Keys\<close>

text \<open>
  The month and the day of the month take two characters each, so a key splits in one
  way only into its three fields: different days have different keys.
\<close>

lemma date_key_inj:
  assumes m: "0 \<le> m" "m \<le> 11" "0 \<le> m'" "m' \<le> 11"
    and d: "1 \<le> d" "d \<le> 31" "1 \<le> d'" "d' \<le> 31"
    and e: "date_key y m d = date_key y' m' d'"
  shows "y = y' \<and> m = m' \<and> d = d'"
proof -
  let ?M = "padStart2 (String_of (m + 1))" and ?M' = "padStart2 (String_of (m' + 1))"
  let ?D = "padStart2 (String_of d)" and ?D' = "padStart2 (String_of d')"
  have lM: "length ?M = 2" "length ?M' = 2" using m by (simp_all add: length_padStart2)
  have lD: "length ?D = 2" "length ?D' = 2" using d by (simp_all add: length_padStart2)
  have "String_of y @ (''-'' @ ?M @ ''-'' @ ?D) = String_of y' @ (''-'' @ ?M' @ ''-'' @ ?D')"
    using e by (simp add: date_key_def)
  then have 1: "String_of y = String_of y'" and 2: "?M @ ''-'' @ ?D = ?M' @ ''-'' @ ?D'"
    using lM lD by (simp_all add: append_eq_append_conv)
  from 2 have 3: "?M = ?M'" and 4: "?D = ?D'"
    using lM lD by (simp_all add: append_eq_append_conv)
  have "m + 1 = m' + 1" using 3 m by (intro padStart2_inj) simp_all
  moreover have "d = d'" using 4 d by (intro padStart2_inj) simp_all
  ultimately show ?thesis using 1 by (simp add: String_of_inj)
qed

lemma day_key_inj: "day_key d = day_key e \<Longrightarrow> d = e"
  unfolding day_key_def
  using date_key_inj [OF MonthFromDay_range [of d] MonthFromDay_range [of e]
      DateFromDay_range [of d] DateFromDay_range [of e]]
  by (simp add: fields_inj)

lemma getDateKey_day_key: "getDateKey tz t = day_key (local_day tz t)"
  by (simp add: getDateKey_def day_key_def getFullYear_def getMonth_def getDate_def)

section \<open>The stored record: lemmas\<close>

text \<open>The daily reset compares keys; that is comparing local days.\<close>

lemma day_key_eq_iff: "day_key d = day_key e \<longleftrightarrow> d = e"
  using day_key_inj by blast

lemma getDateKey_eq_iff:
  "getDateKey tz a = getDateKey tz b \<longleftrightarrow> local_day tz a = local_day tz b"
  by (simp add: getDateKey_day_key day_key_eq_iff)

text \<open>
  The generated history. It is never empty and has at most ten entries; where the zone is
  regular it has the ten days before the call, and the defaults have their usual totals.
\<close>

lemma upt_1_11: "[1..<11] = [1, 2, 3, 4, 5, 6, 7, 8, 9, 10 :: nat]"
  by (simp add: upt_rec)

lemma mock_key:
  "getDateKey tz (setDate tz t (getDate tz t - i)) =
     day_key (local_day tz (UTC_time tz (LocalTime tz t - i * msPerDay)))"
  by (simp add: getDateKey_day_key setDate_back)

lemma days_back_regularD:
  assumes "days_back_regular tz t" and "1 \<le> i" and "i \<le> 10"
  shows "getDateKey tz (setDate tz t (getDate tz t - int i)) = day_key (local_day tz t - int i)"
proof -
  have "i \<in> set [1..<11]" using assms(2,3) by simp
  then have "local_day tz (setDate tz t (getDate tz t - int i)) = local_day tz t - int i"
    using assms(1) unfolding days_back_regular_def list_all_iff by blast
  then show ?thesis by (simp add: getDateKey_day_key)
qed

lemma generateMockHistory_entries:
  assumes "days_back_regular tz t"
  shows "generateMockHistory tz t =
     [(day_key (local_day tz t - 1), 5), (day_key (local_day tz t - 2), 2),
      (day_key (local_day tz t - 3), 6), (day_key (local_day tz t - 4), 3),
      (day_key (local_day tz t - 5), 4), (day_key (local_day tz t - 6), 1),
      (day_key (local_day tz t - 7), 7), (day_key (local_day tz t - 8), 3),
      (day_key (local_day tz t - 9), 2), (day_key (local_day tz t - 10), 5)]"
proof -
  note k = days_back_regularD [OF assms]
  show ?thesis
    unfolding generateMockHistory_def upt_1_11
    using k [of 1] k [of 2] k [of 3] k [of 4] k [of 5] k [of 6] k [of 7] k [of 8] k [of 9]
      k [of 10]
    by (simp add: mock_entry_def mockCounts_def day_key_eq_iff)
qed

lemma generateMockHistory_nonempty: "generateMockHistory tz t \<noteq> []"
  unfolding generateMockHistory_def upt_1_11 by (simp add: mock_entry_def Let_def)

lemma length_update_le: "length (AList.update k v al) \<le> Suc (length al)"
  by (induction al) simp_all

lemma length_fold_mock_entry:
  "length (fold (mock_entry tz t) xs h) \<le> length h + length xs"
proof (induction xs arbitrary: h)
  case Nil
  show ?case by simp
next
  case (Cons x xs)
  have "length (mock_entry tz t x h) \<le> Suc (length h)"
    by (simp add: mock_entry_def Let_def length_update_le)
  then show ?case using Cons [of "mock_entry tz t x h"] by simp
qed

lemma generateMockHistory_length: "length (generateMockHistory tz t) \<le> 10"
  using length_fold_mock_entry [of tz t "[1..<11]" "[]"] by (simp add: generateMockHistory_def)

lemma generateMockHistory_keys:
  assumes "days_back_regular tz t"
  shows "length (generateMockHistory tz t) = 10 \<and> distinct (map fst (generateMockHistory tz t))"
  by (simp add: generateMockHistory_entries [OF assms] day_key_eq_iff)

lemma totalWeekSessions_value:
  assumes "days_back_regular tz boot"
  shows "totalWeekSessions tz boot = 24"
  by (simp add: totalWeekSessions_def sessionsPast6Days_def sessionsToday_def
      generateMockHistory_entries [OF assms])

lemma DEFAULT_STATS_fields:
  "DEFAULT_STATS tz boot mh =
     \<lparr>todaySessions = 3, weekSessions = totalWeekSessions tz boot, dailyGoal = 4,
      lastUpdate = boot, weekStartDate = boot - 345600000, totalMinutesToday = 75,
      totalMinutesWeek = totalWeekSessions tz boot * 25, longestStreak = 12,
      currentStreak = 5, history = Some mh\<rparr>"
  by (simp add: DEFAULT_STATS_def sessionsToday_def)

text \<open>A zone with one offset is regular everywhere.\<close>

lemma div_shift: "(x - i * msPerDay) div msPerDay = x div msPerDay - i"
  using div_mult_self1 [of msPerDay x "- i"] by (simp add: msPerDay_def)

lemma utc_regular: "days_back_regular utc t"
  unfolding days_back_regular_def list_all_iff
  by (simp add: setDate_back local_day_def LocalTime_def UTC_time_def utc_def div_shift)

lemma length_update_ge: "length al \<le> length (AList.update k v al)"
  by (induction al) simp_all

text \<open>Whole days elapsed, rounded down for the week and up for the streak.\<close>

lemma le_div_iff_int:
  fixes a n k :: int
  assumes "0 < n"
  shows "(k \<le> a div n) = (n * k \<le> a)"
proof
  assume "k \<le> a div n"
  then have "n * k \<le> n * (a div n)" using assms by (simp add: mult_left_mono)
  then show "n * k \<le> a" using div_sandwich(1) [OF assms, of a] by linarith
next
  assume "n * k \<le> a"
  then have "n * k < n * (a div n + 1)"
    using div_sandwich(2) [OF assms, of a] by (simp add: algebra_simps)
  then have "k < a div n + 1" using assms by (simp add: mult_less_cancel_left_pos)
  then show "k \<le> a div n" by simp
qed

lemma seven_days: "(7 \<le> (a :: int) div msPerDay) = (7 * msPerDay \<le> a)"
proof -
  have "(7 \<le> a div 86400000) = (7 * 86400000 \<le> a)"
    using zdiv_mono1 [of "7 * 86400000" a 86400000] div_sandwich [of 86400000 a]
    by (auto simp add: algebra_simps)
  then show ?thesis by (simp add: msPerDay_def)
qed

lemma no_week_yet:
  assumes "now - boot < 3 * msPerDay"
  shows "\<not> 7 \<le> (now - (boot - 4 * 24 * 60 * 60 * 1000)) div msPerDay"
  using assms by (simp add: seven_days) (simp add: msPerDay_def)

lemma ceil_div_le_1: "(ceil_div a msPerDay \<le> 1) = (a \<le> msPerDay)"
proof -
  have "0 < msPerDay" by (simp add: msPerDay_def)
  then have "(- 1 \<le> (- a) div msPerDay) = (msPerDay * (- 1) \<le> - a)"
    by (rule le_div_iff_int)
  then show ?thesis by (simp add: ceil_div_def)
qed

lemma days_apart:
  assumes "local_day tz a + 3 \<le> local_day tz b"
    and "utc_offset tz b \<le> utc_offset tz a + msPerDay"
  shows "msPerDay < b - a"
proof -
  have p: "0 < msPerDay" by (simp add: msPerDay_def)
  define q where "q = (a + utc_offset tz a) div msPerDay"
  have 1: "a + utc_offset tz a \<le> msPerDay * q + (msPerDay - 1)"
    unfolding q_def by (rule div_sandwich(2) [OF p])
  have "q + 3 \<le> (b + utc_offset tz b) div msPerDay"
    using assms(1) by (simp add: local_day_def LocalTime_def q_def)
  then have "msPerDay * (q + 3) \<le> b + utc_offset tz b"
    by (simp add: le_div_iff_int [OF p])
  then have 2: "msPerDay * q + 3 * msPerDay \<le> b + utc_offset tz b"
    by (simp add: algebra_simps)
  show ?thesis using 1 2 assms(2) p by linarith
qed

text \<open>
  What every call leaves behind: the record it returned is the stored one, it has a
  history, its \<open>lastUpdate\<close> is on the day of the call and its week is not over. And
  what a call does to such a record on the same day.
\<close>

lemma first_load:
  assumes "mockHistory e \<noteq> []"
  shows "\<exists>r e1 h. getStats tz boot now e = (Inr r, e1)
     \<and> history r = Some h \<and> h \<noteq> []
     \<and> local_day tz (lastUpdate r) = local_day tz now
     \<and> \<not> 7 \<le> (now - weekStartDate r) div msPerDay
     \<and> (statsItem e1 = Parsed r)"
proof (cases "statsItem e")
  case (Parsed s)
  show ?thesis
  proof (cases "history s = None \<or> history s = Some []")
    case True
    then show ?thesis
      using Parsed
      by (auto simp add: getStats_def load_stats_def daily_reset_def weekly_reset_def
        saveStats_def Let_def getDateKey_eq_iff generateMockHistory_nonempty msPerDay_def)
  next
    case False
    then obtain h where h: "history s = Some h" "h \<noteq> []" by auto
    show ?thesis
      using Parsed h
      by (auto simp add: getStats_def load_stats_def daily_reset_def weekly_reset_def
        saveStats_def Let_def getDateKey_eq_iff msPerDay_def)
  qed
qed (use assms in \<open>auto simp add: getStats_def load_stats_def daily_reset_def weekly_reset_def
        saveStats_def Let_def getDateKey_eq_iff DEFAULT_STATS_def msPerDay_def\<close>)

lemma later_load:
  assumes "statsItem e = Parsed s" and "history s = Some h" and "h \<noteq> []"
    and "local_day tz now = local_day tz (lastUpdate s)"
  shows "getStats tz boot now e =
     (if 7 \<le> (now - weekStartDate s) div msPerDay
      then (Inr (s\<lparr>weekSessions := 0, totalMinutesWeek := 0, weekStartDate := now\<rparr>),
            saveStats (s\<lparr>weekSessions := 0, totalMinutesWeek := 0, weekStartDate := now\<rparr>) e)
      else (Inr s, e))"
  using assms
  by (simp add: getStats_def load_stats_def daily_reset_def weekly_reset_def Let_def
      getDateKey_eq_iff)

text \<open>
  On the states of storage that the model has, \<open>getStats\<close> never throws; and what it
  does when the stored string cannot be parsed, or is \<^verbatim>\<open>null\<close>.
\<close>

lemma getStats_returns: "\<exists>r e'. getStats tz boot now e = (Inr r, e')"
  by (cases "statsItem e")
    (auto simp add: getStats_def load_stats_def daily_reset_def weekly_reset_def
      saveStats_def DEFAULT_STATS_def Let_def split: option.splits)

lemma getStats_fallback:
  assumes "statsItem e = Unparsable \<or> statsItem e = ParsedNull"
  shows "getStats tz boot now e = getStats tz boot now (e\<lparr>statsItem := Absent\<rparr>)"
    and "load_stats tz boot now e =
      ((DEFAULT_STATS tz boot (mockHistory e), True),
       saveStats (DEFAULT_STATS tz boot (mockHistory e)) e)"
  using assms by (auto simp add: getStats_def load_stats_def saveStats_def Let_def)

text \<open>The days and keys of the sample instants.\<close>

lemma sample_days:
  "local_day utc sample_boot = 19723"
  "local_day utc 1704099600000 = 19723"
  "local_day utc 1704103200000 = 19723"
  "local_day utc 1704103300000 = 19723"
  "local_day utc 1704186000000 = 19724"
  "local_day utc 1704186060000 = 19724"
  "local_day utc 1704193200000 = 19724"
  "local_day utc 1704362400000 = 19726"
  "local_day utc 1704535199999 = 19728"
  "local_day utc 1704535200000 = 19728"
  by (simp_all add: local_day_def LocalTime_def utc_def sample_boot_def msPerDay_def)

lemma sample_keys:
  "day_key 19713 = ''2023-12-22''" "day_key 19714 = ''2023-12-23''"
  "day_key 19715 = ''2023-12-24''" "day_key 19716 = ''2023-12-25''"
  "day_key 19717 = ''2023-12-26''" "day_key 19718 = ''2023-12-27''"
  "day_key 19719 = ''2023-12-28''" "day_key 19720 = ''2023-12-29''"
  "day_key 19721 = ''2023-12-30''" "day_key 19722 = ''2023-12-31''"
  "day_key 19723 = ''2024-01-01''" "day_key 19724 = ''2024-01-02''"
  "day_key 19726 = ''2024-01-04''" "day_key 19728 = ''2024-01-06''"
  by code_simp+

text \<open>
  In the zone that skipped 30 December 2011, a call on 2 January 2012 at 10:00 local time
  asks for that day with \<open>i = 3\<close> and lands on 31 December, whose count it replaces:
  nine entries, and the first six counts add up to 26.
\<close>

lemma skipped_keys:
  "day_key 15331 = ''2011-12-23''" "day_key 15332 = ''2011-12-24''"
  "day_key 15333 = ''2011-12-25''" "day_key 15334 = ''2011-12-26''"
  "day_key 15335 = ''2011-12-27''" "day_key 15336 = ''2011-12-28''"
  "day_key 15337 = ''2011-12-29''" "day_key 15339 = ''2011-12-31''"
  "day_key 15340 = ''2012-01-01''"
  by code_simp+

lemma skipped_day_history:
  "generateMockHistory skipping 1325448000000 =
     [(''2012-01-01'', 5), (''2011-12-31'', 6), (''2011-12-29'', 3), (''2011-12-28'', 4),
      (''2011-12-27'', 1), (''2011-12-26'', 7), (''2011-12-25'', 3), (''2011-12-24'', 2),
      (''2011-12-23'', 5)]"
proof -
  have k:
    "getDateKey skipping (setDate skipping 1325448000000 (getDate skipping 1325448000000 - 1)) = ''2012-01-01''"
    "getDateKey skipping (setDate skipping 1325448000000 (getDate skipping 1325448000000 - 2)) = ''2011-12-31''"
    "getDateKey skipping (setDate skipping 1325448000000 (getDate skipping 1325448000000 - 3)) = ''2011-12-31''"
    "getDateKey skipping (setDate skipping 1325448000000 (getDate skipping 1325448000000 - 4)) = ''2011-12-29''"
    "getDateKey skipping (setDate skipping 1325448000000 (getDate skipping 1325448000000 - 5)) = ''2011-12-28''"
    "getDateKey skipping (setDate skipping 1325448000000 (getDate skipping 1325448000000 - 6)) = ''2011-12-27''"
    "getDateKey skipping (setDate skipping 1325448000000 (getDate skipping 1325448000000 - 7)) = ''2011-12-26''"
    "getDateKey skipping (setDate skipping 1325448000000 (getDate skipping 1325448000000 - 8)) = ''2011-12-25''"
    "getDateKey skipping (setDate skipping 1325448000000 (getDate skipping 1325448000000 - 9)) = ''2011-12-24''"
    "getDateKey skipping (setDate skipping 1325448000000 (getDate skipping 1325448000000 - 10)) = ''2011-12-23''"
    by (simp_all add: mock_key local_day_def LocalTime_def UTC_time_def skipping_def msPerDay_def
        skipped_keys)
  show ?thesis
    unfolding generateMockHistory_def upt_1_11
    by (simp add: mock_entry_def mockCounts_def k)
qed

lemma skipped_day_week: "totalWeekSessions skipping 1325448000000 = 29"
  by (simp add: totalWeekSessions_def sessionsPast6Days_def sessionsToday_def
      skipped_day_history)

lemma skipped_day_irregular: "\<not> days_back_regular skipping 1325448000000"
  using generateMockHistory_keys [of skipping 1325448000000]
  by (auto simp add: skipped_day_history)

section \<open>The default record\<close>

lemma foldl_plus_sum_list: "foldl (\<lambda>a b. a + b) (a :: int) xs = a + sum_list xs"
  by (induction xs arbitrary: a) simp_all

text \<open>
  C1, as the code has it: when there is no stored record, the record \<open>getStats\<close>
  initialises and saves is a copy of the module's default record, which is sample data
  and not empty: 3 sessions and 75 minutes today, a daily goal of 4, a current streak of 5,
  a longest streak of 12, \<open>lastUpdate\<close> the instant the module was loaded and
  \<open>weekStartDate\<close> four days before it; \<open>weekSessions\<close> is 3 plus the first six
  counts of the history generated when the module was loaded, \<open>totalMinutesWeek\<close> is 25
  times that, and \<open>history\<close> is the module's shared history object, which starts as
  that generated history. A call on the local day the module was loaded, less than three
  days after, returns this record and leaves it in storage. Where each of the ten
  \<^verbatim>\<open>setDate\<close> calls lands on the calendar day it asks for (the zone skipped no local
  day), the generated history is the ten days before the module was loaded with the counts
  5, 2, 6, 3, 4, 1, 7, 3, 2, 5, and \<open>weekSessions\<close> is 24.
\<close>

theorem C1_default_record:
  assumes "statsItem e = Absent"
  shows "load_stats tz boot now e =
       ((DEFAULT_STATS tz boot (mockHistory e), True),
        e\<lparr>statsItem := Parsed (DEFAULT_STATS tz boot (mockHistory e))\<rparr>)
     \<and> DEFAULT_STATS tz boot (mockHistory e) =
         \<lparr>todaySessions = 3, weekSessions = totalWeekSessions tz boot, dailyGoal = 4,
          lastUpdate = boot, weekStartDate = boot - 345600000, totalMinutesToday = 75,
          totalMinutesWeek = totalWeekSessions tz boot * 25, longestStreak = 12,
          currentStreak = 5, history = Some (mockHistory e)\<rparr>
     \<and> totalWeekSessions tz boot = 3 + sum_list (take 6 (map snd (generateMockHistory tz boot)))
     \<and> mockHistory (module_loaded tz boot Absent ti) = generateMockHistory tz boot
     \<and> (local_day tz now = local_day tz boot \<and> now - boot < 3 * msPerDay \<longrightarrow>
          getStats tz boot now e =
            (Inr (DEFAULT_STATS tz boot (mockHistory e)),
             e\<lparr>statsItem := Parsed (DEFAULT_STATS tz boot (mockHistory e))\<rparr>))
     \<and> (days_back_regular tz boot \<longrightarrow>
          totalWeekSessions tz boot = 24
          \<and> generateMockHistory tz boot =
              [(day_key (local_day tz boot - 1), 5), (day_key (local_day tz boot - 2), 2),
               (day_key (local_day tz boot - 3), 6), (day_key (local_day tz boot - 4), 3),
               (day_key (local_day tz boot - 5), 4), (day_key (local_day tz boot - 6), 1),
               (day_key (local_day tz boot - 7), 7), (day_key (local_day tz boot - 8), 3),
               (day_key (local_day tz boot - 9), 2), (day_key (local_day tz boot - 10), 5)])"
proof -
  let ?R = "DEFAULT_STATS tz boot (mockHistory e)"
  have l: "load_stats tz boot now e = ((?R, True), e\<lparr>statsItem := Parsed ?R\<rparr>)"
    using assms by (simp add: load_stats_def saveStats_def Let_def)
  have g: "getStats tz boot now e = (Inr ?R, e\<lparr>statsItem := Parsed ?R\<rparr>)"
    if "local_day tz now = local_day tz boot" and "now - boot < 3 * msPerDay"
    using that(1) no_week_yet [OF that(2)]
    by (simp add: getStats_def l daily_reset_def weekly_reset_def getDateKey_eq_iff
        DEFAULT_STATS_def)
  have w: "totalWeekSessions tz boot = 3 + sum_list (take 6 (map snd (generateMockHistory tz boot)))"
    by (simp add: totalWeekSessions_def sessionsPast6Days_def sessionsToday_def
        foldl_plus_sum_list)
  have m: "mockHistory (module_loaded tz boot Absent ti) = generateMockHistory tz boot"
    by (simp add: module_loaded_def)
  show ?thesis
    using l g w m DEFAULT_STATS_fields [of tz boot "mockHistory e"]
      totalWeekSessions_value [of tz boot] generateMockHistory_entries [of tz boot]
    by blast
qed

theorem C1_default_record_witness:
  "statsItem (stored_env Absent) = Absent
   \<and> local_day utc 1704103200000 = local_day utc sample_boot
   \<and> 1704103200000 - sample_boot < 3 * msPerDay
   \<and> days_back_regular utc sample_boot
   \<and> map_option todaySessions (returned (getStats utc sample_boot 1704103200000 (stored_env Absent)))
       = Some 3
   \<and> map_option weekSessions (returned (getStats utc sample_boot 1704103200000 (stored_env Absent)))
       = Some 24
   \<and> map_option dailyGoal (persisted (getStats utc sample_boot 1704103200000 (stored_env Absent)))
       = Some 4"
proof -
  have a: "statsItem (stored_env Absent) = Absent"
    by (simp add: stored_env_def module_loaded_def)
  have h: "local_day utc 1704103200000 = local_day utc sample_boot
      \<and> 1704103200000 - sample_boot < 3 * msPerDay"
    by (simp add: sample_days) (simp add: sample_boot_def msPerDay_def)
  have r: "days_back_regular utc sample_boot"
    by (rule utc_regular)
  show ?thesis
    using a h r C1_default_record [OF a, where tz = utc and boot = sample_boot
        and now = 1704103200000 and ti = Absent]
    by (simp add: returned_def persisted_def)
qed

text \<open>
  The claim as it was stated fails: with nothing stored, the record returned and saved
  has \<open>todaySessions = 3\<close>, not 0, and ten entries in its history.
\<close>

theorem C1_counterexample:
  "returned (getStats utc sample_boot sample_boot (stored_env Absent)) =
     Some \<lparr>todaySessions = 3, weekSessions = 24, dailyGoal = 4,
           lastUpdate = 1704099600000, weekStartDate = 1703754000000,
           totalMinutesToday = 75, totalMinutesWeek = 600, longestStreak = 12,
           currentStreak = 5,
           history = Some
             [(''2023-12-31'', 5), (''2023-12-30'', 2), (''2023-12-29'', 6),
              (''2023-12-28'', 3), (''2023-12-27'', 4), (''2023-12-26'', 1),
              (''2023-12-25'', 7), (''2023-12-24'', 3), (''2023-12-23'', 2),
              (''2023-12-22'', 5)]\<rparr>
   \<and> persisted (getStats utc sample_boot sample_boot (stored_env Absent)) =
       returned (getStats utc sample_boot sample_boot (stored_env Absent))"
proof -
  have "getStats utc sample_boot sample_boot (stored_env Absent) =
      (Inr (DEFAULT_STATS utc sample_boot (generateMockHistory utc sample_boot)),
       stored_env (Parsed (DEFAULT_STATS utc sample_boot (generateMockHistory utc sample_boot))))"
    by (simp add: getStats_def load_stats_def daily_reset_def weekly_reset_def Let_def
        stored_env_def module_loaded_def saveStats_def DEFAULT_STATS_def msPerDay_def)
  then show ?thesis
    by (simp add: returned_def persisted_def stored_env_def module_loaded_def
        DEFAULT_STATS_fields totalWeekSessions_value [OF utc_regular]
        generateMockHistory_entries [OF utc_regular] sample_days sample_keys sample_boot_def)
qed

section \<open>The streak at the daily reset\<close>

text \<open>
  C2, as the code has it: for a stored record with a history that is not empty, loaded on
  another local day than its \<open>lastUpdate\<close>, let the gap be the elapsed time
  \<open>\<bar>now - lastUpdate\<bar>\<close> in days, rounded up. When the gap is at most 1 (at most 24
  hours have passed), \<open>currentStreak\<close> stays as it is if \<open>todaySessions\<close> is not
  positive and has 1 added otherwise: it grows by exactly 1 when its magnitude is below
  \<open>2 ^ 53\<close>, where the sum is exact. When the gap is more than 1, \<open>currentStreak\<close>
  becomes 0 whatever \<open>todaySessions\<close> is. The gap is more than 1 on every local day
  from the third after \<open>lastUpdate\<close>'s on, as long as the zone offset has not grown by
  more than a day.
\<close>

theorem C2_streak_rule:
  assumes "statsItem e = Parsed s" and "history s = Some h" and "h \<noteq> []"
    and "local_day tz now \<noteq> local_day tz (lastUpdate s)"
  shows "\<exists>r e'. getStats tz boot now e = (Inr r, e')
     \<and> (if ceil_div \<bar>now - lastUpdate s\<bar> msPerDay \<le> 1
         then (if todaySessions s > 0
               then currentStreak r = num_add (currentStreak s) 1
                    \<and> (\<bar>currentStreak s\<bar> < 2 ^ 53 \<longrightarrow> currentStreak r = currentStreak s + 1)
               else currentStreak r = currentStreak s)
         else currentStreak r = 0)
     \<and> (ceil_div \<bar>now - lastUpdate s\<bar> msPerDay \<le> 1 \<longleftrightarrow> \<bar>now - lastUpdate s\<bar> \<le> msPerDay)
     \<and> (local_day tz (lastUpdate s) + 3 \<le> local_day tz now
          \<and> utc_offset tz now \<le> utc_offset tz (lastUpdate s) + msPerDay \<longrightarrow>
          currentStreak r = 0)"
proof -
  have far: "\<not> \<bar>now - lastUpdate s\<bar> \<le> msPerDay"
    if "local_day tz (lastUpdate s) + 3 \<le> local_day tz now"
      and "utc_offset tz now \<le> utc_offset tz (lastUpdate s) + msPerDay"
    using days_apart [OF that] by linarith
  have exact: "num_add (currentStreak s) 1 = currentStreak s + 1"
    if "\<bar>currentStreak s\<bar> < 2 ^ 53"
    using that by (intro num_add_exact) linarith
  show ?thesis
    using assms far exact
    by (auto simp add: getStats_def load_stats_def daily_reset_def weekly_reset_def
        saveStats_def Let_def getDateKey_eq_iff ceil_div_le_1)
qed

theorem C2_streak_rule_witness:
  "statsItem (stored_env (Parsed sample_busy)) = Parsed sample_busy
   \<and> history sample_busy = Some [(''2023-12-31'', 2)]
   \<and> local_day utc 1704186000000 \<noteq> local_day utc (lastUpdate sample_busy)
   \<and> currentStreak sample_busy = 3 \<and> \<bar>currentStreak sample_busy\<bar> < 2 ^ 53
   \<and> (\<exists>r e'. getStats utc sample_boot 1704186000000 (stored_env (Parsed sample_busy)) = (Inr r, e')
        \<and> currentStreak r = 4)
   \<and> local_day utc (lastUpdate sample_busy) + 3 \<le> local_day utc 1704362400000
   \<and> (\<exists>r e'. getStats utc sample_boot 1704362400000 (stored_env (Parsed sample_busy)) = (Inr r, e')
        \<and> currentStreak r = 0)"
proof -
  have s: "statsItem (stored_env (Parsed sample_busy)) = Parsed sample_busy"
    by (simp add: stored_env_def module_loaded_def)
  have h: "history sample_busy = Some [(''2023-12-31'', 2)]"
    by (simp add: sample_busy_def sample_stats_def)
  have n: "[(''2023-12-31'', 2 :: int)] \<noteq> []"
    by simp
  have d1: "local_day utc 1704186000000 \<noteq> local_day utc (lastUpdate sample_busy)"
    by (simp add: local_day_def LocalTime_def utc_def sample_busy_def sample_stats_def msPerDay_def)
  have d3: "local_day utc 1704362400000 \<noteq> local_day utc (lastUpdate sample_busy)"
    by (simp add: local_day_def LocalTime_def utc_def sample_busy_def sample_stats_def msPerDay_def)
  have far: "local_day utc (lastUpdate sample_busy) + 3 \<le> local_day utc 1704362400000"
    by (simp add: local_day_def LocalTime_def utc_def sample_busy_def sample_stats_def msPerDay_def)
  have near: "ceil_div \<bar>1704186000000 - lastUpdate sample_busy\<bar> msPerDay \<le> 1"
    by (simp add: ceil_div_def sample_busy_def sample_stats_def msPerDay_def)
  have v: "todaySessions sample_busy = 2" "currentStreak sample_busy = 3"
    by (simp_all add: sample_busy_def sample_stats_def)
  have z: "utc_offset utc 1704362400000 \<le> utc_offset utc (lastUpdate sample_busy) + msPerDay"
    by (simp add: utc_def msPerDay_def)
  have c1: "\<exists>r e'. getStats utc sample_boot 1704186000000 (stored_env (Parsed sample_busy)) = (Inr r, e')
      \<and> currentStreak r = 4"
    using C2_streak_rule [OF s h n d1, of sample_boot] by (auto simp add: near v)
  have c3: "\<exists>r e'. getStats utc sample_boot 1704362400000 (stored_env (Parsed sample_busy)) = (Inr r, e')
      \<and> currentStreak r = 0"
    using C2_streak_rule [OF s h n d3, of sample_boot] far z by blast
  have b: "\<bar>currentStreak sample_busy\<bar> < 2 ^ 53"
    by (simp add: v)
  show ?thesis
    using s h d1 far v(2) b c1 c3 by blast
qed

text \<open>
  The claim as it was stated fails twice on the day after \<open>lastUpdate\<close>. With no
  session that day and 23 hours passed, the streak of 3 is kept, not reset; with two
  sessions that day and 25 hours passed, the streak of 3 is reset to 0, not raised to 4.
\<close>

theorem C2_counterexample:
  "local_day utc 1704186000000 = local_day utc (lastUpdate sample_stats) + 1
   \<and> todaySessions sample_stats = 0 \<and> currentStreak sample_stats = 3
   \<and> map_option currentStreak
        (returned (getStats utc sample_boot 1704186000000 (stored_env (Parsed sample_stats))))
       = Some 3
   \<and> local_day utc 1704193200000 = local_day utc (lastUpdate sample_busy) + 1
   \<and> todaySessions sample_busy = 2 \<and> currentStreak sample_busy = 3
   \<and> map_option currentStreak
        (returned (getStats utc sample_boot 1704193200000 (stored_env (Parsed sample_busy))))
       = Some 0"
  by (simp add: getStats_def load_stats_def daily_reset_def weekly_reset_def Let_def
      stored_env_def module_loaded_def saveStats_def returned_def sample_stats_def
      sample_busy_def getDateKey_day_key sample_days sample_keys ceil_div_def msPerDay_def)

section \<open>Loading twice\<close>

text \<open>
  C3, as the code has it: after a call of \<open>getStats\<close>, a second call on the same local
  day does not archive into the history again and does not change the streaks: it returns
  the first call's \<open>history\<close>, \<open>currentStreak\<close>, \<open>longestStreak\<close>, \<open>todaySessions\<close>,
  \<open>totalMinutesToday\<close>, \<open>lastUpdate\<close> and \<open>dailyGoal\<close>. The record is the first call's
  record, and storage is as the first call left it, unless seven whole days since the
  first record's \<open>weekStartDate\<close> have become full between the calls: then the second
  call resets the week.
\<close>

theorem C3_second_load:
  assumes "mockHistory e \<noteq> []" and "local_day tz now2 = local_day tz now1"
  shows "\<exists>r1 e1 r2 e2. getStats tz boot now1 e = (Inr r1, e1)
     \<and> getStats tz boot now2 e1 = (Inr r2, e2)
     \<and> history r2 = history r1 \<and> currentStreak r2 = currentStreak r1
     \<and> longestStreak r2 = longestStreak r1 \<and> todaySessions r2 = todaySessions r1
     \<and> totalMinutesToday r2 = totalMinutesToday r1 \<and> lastUpdate r2 = lastUpdate r1
     \<and> dailyGoal r2 = dailyGoal r1
     \<and> (if 7 \<le> (now2 - weekStartDate r1) div msPerDay
         then weekSessions r2 = 0 \<and> totalMinutesWeek r2 = 0 \<and> weekStartDate r2 = now2
         else r2 = r1 \<and> e2 = e1)"
proof -
  obtain r1 e1 h where 1: "getStats tz boot now1 e = (Inr r1, e1)"
    and h: "history r1 = Some h" "h \<noteq> []"
    and d: "local_day tz (lastUpdate r1) = local_day tz now1"
    and p: "statsItem e1 = Parsed r1"
    using first_load [OF assms(1), of tz boot now1] by blast
  have d2: "local_day tz now2 = local_day tz (lastUpdate r1)"
    using d assms(2) by simp
  show ?thesis
    using 1 later_load [OF p h d2, of boot]
    by (cases "7 \<le> (now2 - weekStartDate r1) div msPerDay") simp_all
qed

theorem C3_second_load_witness:
  "mockHistory (stored_env (Parsed sample_busy)) \<noteq> []
   \<and> local_day utc 1704186060000 = local_day utc 1704186000000
   \<and> (\<exists>r1 e1. getStats utc sample_boot 1704186000000 (stored_env (Parsed sample_busy)) = (Inr r1, e1)
        \<and> getStats utc sample_boot 1704186060000 e1 = (Inr r1, e1)
        \<and> currentStreak r1 = 4)"
proof -
  have m: "mockHistory (stored_env (Parsed sample_busy)) \<noteq> []"
    by (simp add: stored_env_def module_loaded_def generateMockHistory_nonempty)
  have d: "local_day utc 1704186060000 = local_day utc 1704186000000"
    by (simp add: sample_days)
  have v: "map_option (\<lambda>r. (weekStartDate r, currentStreak r))
      (returned (getStats utc sample_boot 1704186000000 (stored_env (Parsed sample_busy))))
      = Some (1703930400000, 4)"
    by (simp add: getStats_def load_stats_def daily_reset_def weekly_reset_def Let_def
        stored_env_def module_loaded_def saveStats_def returned_def sample_stats_def
        sample_busy_def getDateKey_day_key sample_days sample_keys ceil_div_def msPerDay_def
        num_add_exact)
  obtain r1 e1 r2 e2
    where 1: "getStats utc sample_boot 1704186000000 (stored_env (Parsed sample_busy)) = (Inr r1, e1)"
      and 2: "getStats utc sample_boot 1704186060000 e1 = (Inr r2, e2)"
      and 3: "if 7 \<le> (1704186060000 - weekStartDate r1) div msPerDay
              then weekSessions r2 = 0 \<and> totalMinutesWeek r2 = 0 \<and> weekStartDate r2 = 1704186060000
              else r2 = r1 \<and> e2 = e1"
    using C3_second_load [OF m d, of sample_boot] by blast
  have w: "weekStartDate r1 = 1703930400000" "currentStreak r1 = 4"
    using v 1 by (simp_all add: returned_def)
  have "r2 = r1 \<and> e2 = e1"
    using 3 by (simp add: w msPerDay_def)
  then show ?thesis
    using m d 1 2 w by blast
qed

text \<open>
  The claim as it was stated fails: two calls one millisecond apart on 2024-01-06, the
  first just before seven days since \<open>weekStartDate\<close> are full and the second just
  after, return records with different \<open>weekSessions\<close>, \<open>totalMinutesWeek\<close> and
  \<open>weekStartDate\<close>.
\<close>

theorem C3_counterexample:
  "local_day utc 1704535200000 = local_day utc 1704535199999
   \<and> returned (getStats utc sample_boot 1704535199999 (stored_env (Parsed sample_stats))) =
       Some \<lparr>todaySessions = 0, weekSessions = 6, dailyGoal = 4,
             lastUpdate = 1704535199999, weekStartDate = 1703930400000,
             totalMinutesToday = 0, totalMinutesWeek = 150, longestStreak = 5,
             currentStreak = 0,
             history = Some [(''2023-12-31'', 2), (''2024-01-01'', 0)]\<rparr>
   \<and> returned (getStats utc sample_boot 1704535200000
         (snd (getStats utc sample_boot 1704535199999 (stored_env (Parsed sample_stats))))) =
       Some \<lparr>todaySessions = 0, weekSessions = 0, dailyGoal = 4,
             lastUpdate = 1704535199999, weekStartDate = 1704535200000,
             totalMinutesToday = 0, totalMinutesWeek = 0, longestStreak = 5,
             currentStreak = 0,
             history = Some [(''2023-12-31'', 2), (''2024-01-01'', 0)]\<rparr>"
  by (simp add: getStats_def load_stats_def daily_reset_def weekly_reset_def Let_def
      stored_env_def module_loaded_def saveStats_def returned_def sample_stats_def
      getDateKey_day_key sample_days sample_keys ceil_div_def msPerDay_def)

section \<open>Unreadable storage\<close>

text \<open>
  C4: the claim is that a corrupted or unparsable stored blob makes the load operation of
  either store, \<open>getStats\<close> and \<open>getSettings\<close>, return the default values without
  raising an error. On a blob that cannot be parsed \<open>getStats\<close> does so
  (\<open>getStats_fallback\<close>): it parses inside a \<^verbatim>\<open>try\<close>. \<open>getSettings\<close> parses outside
  any \<^verbatim>\<open>try\<close>, and on such a blob the SyntaxError of \<^verbatim>\<open>JSON.parse\<close> reaches the
  caller.
\<close>

theorem C4_getSettings_throws:
  "getSettings ((stored_env Absent)\<lparr>settingsItem := Unparsable\<rparr>) = Inl SyntaxError"
  by (simp add: getSettings_def)

section \<open>Records without a history\<close>

text \<open>
  C5, as the code has it: for a stored record whose history is missing or empty,
  \<open>getStats\<close> puts in a generated history, sets \<open>currentStreak\<close> to 5 whatever it was,
  and sets \<open>longestStreak\<close> to the larger of its stored value and 12. The generated
  history is not empty and has at most ten entries; where each of the ten \<^verbatim>\<open>setDate\<close>
  calls lands on the calendar day it asks for (the zone skipped no local day), it is the
  ten days before the call with the counts 5, 2, 6, 3, 4, 1, 7, 3, 2, 5. The record
  returned has a history that is not empty (of at least ten entries in such a zone), a
  \<open>longestStreak\<close> of at least 12 and not below the stored one, and a \<open>currentStreak\<close>
  of 5, 6 or 0: it is 5 when the call is on the local day of \<open>lastUpdate\<close>.
\<close>

theorem C5_migration:
  assumes "statsItem e = Parsed s" and "history s = None \<or> history s = Some []"
  shows "\<exists>r e'. getStats tz boot now e = (Inr r, e')
     \<and> fst (fst (load_stats tz boot now e)) =
         s\<lparr>history := Some (generateMockHistory tz now), currentStreak := 5,
           longestStreak := max (longestStreak s) 12\<rparr>
     \<and> generateMockHistory tz now \<noteq> [] \<and> length (generateMockHistory tz now) \<le> 10
     \<and> (\<exists>h. history r = Some h \<and> h \<noteq> [])
     \<and> longestStreak s \<le> longestStreak r \<and> 12 \<le> longestStreak r
     \<and> (currentStreak r = 5 \<or> currentStreak r = 6 \<or> currentStreak r = 0)
     \<and> (local_day tz now = local_day tz (lastUpdate s) \<longrightarrow>
          currentStreak r = 5 \<and> longestStreak r = max (longestStreak s) 12
          \<and> history r = Some (generateMockHistory tz now))
     \<and> (days_back_regular tz now \<longrightarrow>
          generateMockHistory tz now =
            [(day_key (local_day tz now - 1), 5), (day_key (local_day tz now - 2), 2),
             (day_key (local_day tz now - 3), 6), (day_key (local_day tz now - 4), 3),
             (day_key (local_day tz now - 5), 4), (day_key (local_day tz now - 6), 1),
             (day_key (local_day tz now - 7), 7), (day_key (local_day tz now - 8), 3),
             (day_key (local_day tz now - 9), 2), (day_key (local_day tz now - 10), 5)]
          \<and> (\<exists>h. history r = Some h \<and> 10 \<le> length h))"
proof -
  let ?g = "generateMockHistory tz now"
  have six: "num_add 5 1 = 6"
    by (simp add: num_add_exact)
  have len: "10 \<le> length (AList.update k v ?g)" if "days_back_regular tz now" for k v
    using length_update_ge [of ?g k v] generateMockHistory_keys [OF that] by simp
  have ten: "length ?g = 10" if "days_back_regular tz now"
    using generateMockHistory_keys [OF that] by simp
  obtain r e' where g: "getStats tz boot now e = (Inr r, e')"
    using getStats_returns by blast
  have l: "fst (fst (load_stats tz boot now e)) =
      s\<lparr>history := Some ?g, currentStreak := 5, longestStreak := max (longestStreak s) 12\<rparr>"
    using assms by (auto simp add: load_stats_def Let_def)
  have h: "\<exists>h. history r = Some h \<and> h \<noteq> []"
    using assms g
    by (auto simp add: getStats_def load_stats_def daily_reset_def weekly_reset_def
        saveStats_def Let_def generateMockHistory_nonempty split: if_splits)
  have st: "longestStreak s \<le> longestStreak r \<and> 12 \<le> longestStreak r
      \<and> (currentStreak r = 5 \<or> currentStreak r = 6 \<or> currentStreak r = 0)"
    using assms g
    by (auto simp add: getStats_def load_stats_def daily_reset_def weekly_reset_def
        saveStats_def Let_def six split: if_splits)
  have same: "currentStreak r = 5 \<and> longestStreak r = max (longestStreak s) 12
      \<and> history r = Some ?g"
    if "local_day tz now = local_day tz (lastUpdate s)"
    using assms g that
    by (auto simp add: getStats_def load_stats_def daily_reset_def weekly_reset_def
        saveStats_def Let_def getDateKey_eq_iff split: if_splits)
  have reg: "\<exists>h. history r = Some h \<and> 10 \<le> length h" if "days_back_regular tz now"
    using assms g len [OF that] ten [OF that]
    by (auto simp add: getStats_def load_stats_def daily_reset_def weekly_reset_def
        saveStats_def Let_def split: if_splits)
  show ?thesis
    using g l h st same reg generateMockHistory_nonempty [of tz now]
      generateMockHistory_length [of tz now] generateMockHistory_entries [of tz now]
    by blast
qed

theorem C5_migration_witness:
  "statsItem (stored_env (Parsed sample_legacy)) = Parsed sample_legacy
   \<and> history sample_legacy = Some []
   \<and> local_day utc 1704103300000 = local_day utc (lastUpdate sample_legacy)
   \<and> days_back_regular utc 1704103300000
   \<and> (\<exists>r e'. getStats utc sample_boot 1704103300000 (stored_env (Parsed sample_legacy)) = (Inr r, e')
        \<and> currentStreak r = 5 \<and> longestStreak r = 12
        \<and> (\<exists>h. history r = Some h \<and> 10 \<le> length h))"
proof -
  have s: "statsItem (stored_env (Parsed sample_legacy)) = Parsed sample_legacy"
    by (simp add: stored_env_def module_loaded_def)
  have h: "history sample_legacy = Some []"
    by (simp add: sample_legacy_def)
  have h': "history sample_legacy = None \<or> history sample_legacy = Some []"
    using h by simp
  have d: "local_day utc 1704103300000 = local_day utc (lastUpdate sample_legacy)"
    by (simp add: sample_legacy_def sample_stats_def sample_days)
  have l: "max (longestStreak sample_legacy) 12 = 12"
    by (simp add: sample_legacy_def)
  have r: "days_back_regular utc 1704103300000"
    by (rule utc_regular)
  show ?thesis
    using s h d l r C5_migration [OF s h', of utc sample_boot 1704103300000] by auto
qed

text \<open>
  The claim as it was stated fails: a stored record with an empty history and a
  \<open>currentStreak\<close> of 8 comes back with a \<open>currentStreak\<close> of 5.
\<close>

theorem C5_counterexample:
  "currentStreak sample_legacy = 8
   \<and> returned (getStats utc sample_boot 1704103300000 (stored_env (Parsed sample_legacy))) =
       Some \<lparr>todaySessions = 0, weekSessions = 6, dailyGoal = 4,
             lastUpdate = 1704103200000, weekStartDate = 1703930400000,
             totalMinutesToday = 0, totalMinutesWeek = 150, longestStreak = 12,
             currentStreak = 5,
             history = Some
               [(''2023-12-31'', 5), (''2023-12-30'', 2), (''2023-12-29'', 6),
                (''2023-12-28'', 3), (''2023-12-27'', 4), (''2023-12-26'', 1),
                (''2023-12-25'', 7), (''2023-12-24'', 3), (''2023-12-23'', 2),
                (''2023-12-22'', 5)]\<rparr>"
  by (simp add: getStats_def load_stats_def daily_reset_def weekly_reset_def Let_def
      stored_env_def module_loaded_def saveStats_def returned_def sample_stats_def
      sample_legacy_def getDateKey_day_key generateMockHistory_entries [OF utc_regular]
      sample_days sample_keys msPerDay_def)

section \<open>The weekly reset\<close>

text \<open>
  C6: for every stored record and every call of \<open>getStats\<close>, the weekly reset fires
  exactly when at least seven whole days have passed from \<open>weekStartDate\<close> to the
  instant of the call, that is when \<open>now - weekStartDate\<close> is at least seven times 24
  hours. When it fires, the record returned has \<open>weekSessions = 0\<close>,
  \<open>totalMinutesWeek = 0\<close> and \<open>weekStartDate = now\<close>, and is saved; when it does not,
  the three fields are the stored ones.
\<close>

theorem C6_weekly_reset:
  assumes "statsItem e = Parsed s"
  shows "\<exists>r e'. getStats tz boot now e = (Inr r, e')
     \<and> (if 7 \<le> (now - weekStartDate s) div msPerDay
         then weekSessions r = 0 \<and> totalMinutesWeek r = 0 \<and> weekStartDate r = now
              \<and> statsItem e' = Parsed r
         else weekSessions r = weekSessions s \<and> totalMinutesWeek r = totalMinutesWeek s
              \<and> weekStartDate r = weekStartDate s)
     \<and> (7 \<le> (now - weekStartDate s) div msPerDay \<longleftrightarrow> 7 * msPerDay \<le> now - weekStartDate s)"
  using assms
  by (auto simp add: getStats_def load_stats_def daily_reset_def weekly_reset_def saveStats_def
      Let_def seven_days split: option.splits)

theorem C6_weekly_reset_witness:
  "statsItem (stored_env (Parsed sample_stats)) = Parsed sample_stats
   \<and> (\<exists>r e'. getStats utc sample_boot 1704535200000 (stored_env (Parsed sample_stats)) = (Inr r, e')
        \<and> weekSessions r = 0 \<and> totalMinutesWeek r = 0 \<and> weekStartDate r = 1704535200000)
   \<and> (\<exists>r e'. getStats utc sample_boot 1704535199999 (stored_env (Parsed sample_stats)) = (Inr r, e')
        \<and> weekSessions r = 6 \<and> totalMinutesWeek r = 150 \<and> weekStartDate r = 1703930400000)"
proof -
  have h: "statsItem (stored_env (Parsed sample_stats)) = Parsed sample_stats"
    by (simp add: stored_env_def module_loaded_def)
  have w: "weekSessions sample_stats = 6" "totalMinutesWeek sample_stats = 150"
    "weekStartDate sample_stats = 1703930400000"
    by (simp_all add: sample_stats_def)
  show ?thesis
    using h C6_weekly_reset [OF h, of utc sample_boot 1704535200000]
      C6_weekly_reset [OF h, of utc sample_boot 1704535199999]
    by (auto simp add: w msPerDay_def)
qed

section \<open>Recording a session\<close>

lemma recordSessions_snoc:
  "recordSessions s (calls @ [c]) = recordSession (recordSessions s calls) (fst c) (snd c)"
  by (simp add: recordSessions_def)

lemma sum_list_nonneg_int: "\<forall>x \<in> set xs. 0 \<le> x \<Longrightarrow> 0 \<le> sum_list (xs :: int list)"
  by (induction xs) simp_all

lemma recordSessions_today:
  assumes "0 \<le> todaySessions s" and "0 \<le> totalMinutesToday s"
    and "\<forall>c \<in> set calls. 0 \<le> fst c"
    and "todaySessions s + int (length calls) \<le> 2 ^ 53"
    and "totalMinutesToday s + sum_list (map fst calls) \<le> 2 ^ 53"
  shows "todaySessions (recordSessions s calls) = todaySessions s + int (length calls)
   \<and> totalMinutesToday (recordSessions s calls) = totalMinutesToday s + sum_list (map fst calls)"
  using assms
proof (induction calls rule: rev_induct)
  case Nil
  show ?case by (simp add: recordSessions_def)
next
  case (snoc c calls)
  have c: "0 \<le> fst c" using snoc.prems(3) by simp
  have p: "0 \<le> sum_list (map fst calls)"
    using snoc.prems(3) by (intro sum_list_nonneg_int) auto
  have ih: "todaySessions (recordSessions s calls) = todaySessions s + int (length calls)
      \<and> totalMinutesToday (recordSessions s calls)
          = totalMinutesToday s + sum_list (map fst calls)"
    using snoc.prems c by (intro snoc.IH) simp_all
  have a: "num_add (todaySessions s + int (length calls)) 1
      = todaySessions s + int (length calls) + 1"
    using snoc.prems(1,4) by (intro num_add_exact) simp
  have b: "num_add (totalMinutesToday s + sum_list (map fst calls)) (fst c)
      = totalMinutesToday s + sum_list (map fst calls) + fst c"
    using snoc.prems(2,5) c p by (intro num_add_exact) simp
  show ?case
    by (simp add: recordSessions_snoc recordSession_def ih a b)
qed

text \<open>
  C7, as the code has it: recording a completed focus session sets \<open>lastUpdate\<close> to the
  current instant, changes no field but the four counters and \<open>lastUpdate\<close>, and adds,
  in double arithmetic, 1 to \<open>todaySessions\<close> and \<open>weekSessions\<close> and the minutes to
  \<open>totalMinutesToday\<close> and \<open>totalMinutesWeek\<close>: the counters grow by exactly 1 and by
  exactly the minutes as long as the results stay within \<open>2 ^ 53\<close> in magnitude.
  \<^verbatim>\<open>completeSession\<close> in focus mode does this with the configured focus duration, saves
  the record and switches to the break. So after a run of such calls with minutes that
  are not negative, on a record whose counters for today are 0, \<open>todaySessions\<close> is the
  number of calls and \<open>totalMinutesToday\<close> the sum of their minutes, as long as both are
  at most \<open>2 ^ 53\<close>.
\<close>

theorem C7_recordSession:
  "(\<bar>todaySessions s\<bar> < 2 ^ 53 \<and> \<bar>weekSessions s\<bar> < 2 ^ 53
      \<and> \<bar>totalMinutesToday s + m\<bar> \<le> 2 ^ 53 \<and> \<bar>totalMinutesWeek s + m\<bar> \<le> 2 ^ 53 \<longrightarrow>
      recordSession s m now =
        s\<lparr>todaySessions := todaySessions s + 1, weekSessions := weekSessions s + 1,
          totalMinutesToday := totalMinutesToday s + m,
          totalMinutesWeek := totalMinutesWeek s + m, lastUpdate := now\<rparr>)
   \<and> recordSession s m now =
       s\<lparr>todaySessions := num_add (todaySessions s) 1,
         weekSessions := num_add (weekSessions s) 1,
         totalMinutesToday := num_add (totalMinutesToday s) m,
         totalMinutesWeek := num_add (totalMinutesWeek s) m, lastUpdate := now\<rparr>
   \<and> (mode st = Focus \<longrightarrow>
        stats (completeSession now st) = recordSession (stats st) (focusDuration (settings st)) now
        \<and> statsItem (store (completeSession now st)) = Parsed (stats (completeSession now st))
        \<and> mode (completeSession now st) = Break)
   \<and> (todaySessions s = 0 \<and> totalMinutesToday s = 0 \<and> (\<forall>c \<in> set calls. 0 \<le> fst c)
        \<and> int (length calls) \<le> 2 ^ 53 \<and> sum_list (map fst calls) \<le> 2 ^ 53 \<longrightarrow>
        todaySessions (recordSessions s calls) = int (length calls)
        \<and> totalMinutesToday (recordSessions s calls) = sum_list (map fst calls))"
proof -
  have one: "num_add x 1 = x + 1" if "\<bar>x\<bar> < 2 ^ 53" for x
    using that by (intro num_add_exact) linarith
  have step: "recordSession s m now =
        s\<lparr>todaySessions := todaySessions s + 1, weekSessions := weekSessions s + 1,
          totalMinutesToday := totalMinutesToday s + m,
          totalMinutesWeek := totalMinutesWeek s + m, lastUpdate := now\<rparr>"
    if "\<bar>todaySessions s\<bar> < 2 ^ 53" "\<bar>weekSessions s\<bar> < 2 ^ 53"
      "\<bar>totalMinutesToday s + m\<bar> \<le> 2 ^ 53" "\<bar>totalMinutesWeek s + m\<bar> \<le> 2 ^ 53"
    using that by (simp add: recordSession_def one num_add_exact)
  have rest: "recordSession s m now =
       s\<lparr>todaySessions := num_add (todaySessions s) 1,
         weekSessions := num_add (weekSessions s) 1,
         totalMinutesToday := num_add (totalMinutesToday s) m,
         totalMinutesWeek := num_add (totalMinutesWeek s) m, lastUpdate := now\<rparr>"
    by (simp add: recordSession_def)
  have app: "stats (completeSession now st)
        = recordSession (stats st) (focusDuration (settings st)) now
      \<and> statsItem (store (completeSession now st)) = Parsed (stats (completeSession now st))
      \<and> mode (completeSession now st) = Break"
    if "mode st = Focus"
    using that by (simp add: completeSession_def handleSwitchMode_def saveStats_def Let_def)
  have run: "todaySessions (recordSessions s calls) = int (length calls)
      \<and> totalMinutesToday (recordSessions s calls) = sum_list (map fst calls)"
    if "todaySessions s = 0" "totalMinutesToday s = 0" "\<forall>c \<in> set calls. 0 \<le> fst c"
      "int (length calls) \<le> 2 ^ 53" "sum_list (map fst calls) \<le> 2 ^ 53"
    using recordSessions_today [of s calls] that by simp
  show ?thesis
    using step rest app run by blast
qed

theorem C7_recordSession_witness:
  "mode sample_app = Focus
   \<and> \<bar>todaySessions sample_stats\<bar> < 2 ^ 53 \<and> \<bar>weekSessions sample_stats\<bar> < 2 ^ 53
   \<and> \<bar>totalMinutesToday sample_stats + 25\<bar> \<le> 2 ^ 53
   \<and> \<bar>totalMinutesWeek sample_stats + 25\<bar> \<le> 2 ^ 53
   \<and> todaySessions (stats (completeSession 1704103300000 sample_app)) = 1
   \<and> totalMinutesToday (stats (completeSession 1704103300000 sample_app)) = 25
   \<and> todaySessions sample_stats = 0 \<and> totalMinutesToday sample_stats = 0
   \<and> todaySessions (recordSessions sample_stats [(25, 1704103300000), (50, 1704103400000)]) = 2
   \<and> totalMinutesToday (recordSessions sample_stats [(25, 1704103300000), (50, 1704103400000)]) = 75"
proof -
  have f: "mode sample_app = Focus" "stats sample_app = sample_stats"
    "focusDuration (settings sample_app) = 25"
    by (simp_all add: sample_app_def DEFAULT_SETTINGS_def)
  have z: "todaySessions sample_stats = 0" "totalMinutesToday sample_stats = 0"
    "weekSessions sample_stats = 6" "totalMinutesWeek sample_stats = 150"
    by (simp_all add: sample_stats_def)
  show ?thesis
    using f z
      C7_recordSession [where s = sample_stats and m = 25 and now = 1704103300000
        and st = sample_app and calls = "[(25, 1704103300000), (50, 1704103400000)]"]
    by simp
qed

text \<open>
  The claim as it was stated fails where doubles stop counting by ones: on a record
  with \<open>todaySessions = 2 ^ 53\<close>, recording a session leaves \<open>todaySessions\<close> at
  \<open>2 ^ 53\<close>.
\<close>

theorem C7_counterexample:
  "todaySessions sample_full = 9007199254740992
   \<and> todaySessions (recordSession sample_full 25 1704103300000) = 9007199254740992
   \<and> todaySessions (stats (completeSession 1704103300000 (sample_app\<lparr>stats := sample_full\<rparr>)))
       = 9007199254740992"
  by (simp add: sample_full_def sample_app_def recordSession_def completeSession_def
      handleSwitchMode_def Let_def num_add_def num_round_odd)

section \<open>The streak invariant\<close>

text \<open>
  C8: \<open>currentStreak \<le> longestStreak\<close> is an invariant. When the stored record, if
  there is one, satisfies it, the record \<open>getStats\<close> returns satisfies it, with or
  without the generated history and whichever resets fire; and recording a session, once
  or many times, keeps it.
\<close>

theorem C8_streak_invariant:
  assumes "\<And>s. statsItem e = Parsed s \<Longrightarrow> currentStreak s \<le> longestStreak s"
    and "currentStreak s0 \<le> longestStreak s0"
  shows "(\<exists>r e'. getStats tz boot now e = (Inr r, e') \<and> currentStreak r \<le> longestStreak r)
     \<and> currentStreak (recordSession s0 m t) \<le> longestStreak (recordSession s0 m t)
     \<and> currentStreak (recordSessions s0 calls) \<le> longestStreak (recordSessions s0 calls)"
proof -
  have rec: "currentStreak (recordSessions s0 calls) = currentStreak s0
      \<and> longestStreak (recordSessions s0 calls) = longestStreak s0"
    by (induction calls rule: rev_induct) (simp_all add: recordSessions_def recordSession_def)
  have load: "\<exists>r e'. getStats tz boot now e = (Inr r, e') \<and> currentStreak r \<le> longestStreak r"
  proof (cases "statsItem e")
    case (Parsed s)
    then show ?thesis
      using assms(1) [OF Parsed]
      by (auto simp add: getStats_def load_stats_def daily_reset_def weekly_reset_def
          saveStats_def Let_def split: option.splits)
  qed (auto simp add: getStats_def load_stats_def daily_reset_def weekly_reset_def
        saveStats_def DEFAULT_STATS_def Let_def)
  show ?thesis
    using load rec assms(2) by (simp add: recordSession_def)
qed

theorem C8_streak_invariant_witness:
  "currentStreak sample_busy \<le> longestStreak sample_busy
   \<and> (\<exists>r e'. getStats utc sample_boot 1704186000000 (stored_env (Parsed sample_busy)) = (Inr r, e')
        \<and> currentStreak r \<le> longestStreak r)
   \<and> currentStreak (recordSession sample_busy 25 1704103300000)
       \<le> longestStreak (recordSession sample_busy 25 1704103300000)"
proof -
  have b: "currentStreak sample_busy \<le> longestStreak sample_busy"
    by (simp add: sample_busy_def sample_stats_def)
  have a: "currentStreak s \<le> longestStreak s"
    if "statsItem (stored_env (Parsed sample_busy)) = Parsed s" for s
    using that b by (simp add: stored_env_def module_loaded_def)
  show ?thesis
    using b C8_streak_invariant [OF a b, where tz = utc and boot = sample_boot
        and now = 1704186000000 and m = 25 and t = 1704103300000 and calls = "[]"]
    by simp
qed

section \<open>The shape of the date key\<close>

text \<open>
  What does hold of the key. Two instants have the same key exactly when they fall on the
  same local calendar day. The key is the local year as \<^verbatim>\<open>String\<close> prints it, a
  hyphen, two digits that read as the number of the month (from 1 to 12), a hyphen and
  two digits that read as the day of the month (from 1 to 31); so it has the shape
  \<^verbatim>\<open>YYYY-MM-DD\<close> when the local year is from 1000 to 9999.
\<close>

lemma getDateKey_properties:
  "(getDateKey tz a = getDateKey tz b \<longleftrightarrow> local_day tz a = local_day tz b)
   \<and> (1000 \<le> getFullYear tz a \<and> getFullYear tz a \<le> 9999 \<longrightarrow> is_YYYY_MM_DD (getDateKey tz a))
   \<and> (\<exists>m d. getDateKey tz a = String_of (getFullYear tz a) @ ''-'' @ m @ ''-'' @ d
          \<and> length m = 2 \<and> length d = 2 \<and> list_all is_digit m \<and> list_all is_digit d
          \<and> digits_value m = nat (getMonth tz a + 1) \<and> digits_value d = nat (getDate tz a))
   \<and> (0 \<le> getMonth tz a \<and> getMonth tz a \<le> 11 \<and> 1 \<le> getDate tz a \<and> getDate tz a \<le> 31)"
proof -
  let ?y = "getFullYear tz a"
  let ?m = "padStart2 (String_of (getMonth tz a + 1))"
  let ?d = "padStart2 (String_of (getDate tz a))"
  have mr: "0 \<le> getMonth tz a + 1" "getMonth tz a + 1 < 100"
    using MonthFromDay_range [of "local_day tz a"] by (simp_all add: getMonth_def)
  have dr: "0 \<le> getDate tz a" "getDate tz a < 100"
    using DateFromDay_range [of "local_day tz a"] by (simp_all add: getDate_def)
  have lm: "length ?m = 2" and ld: "length ?d = 2"
    using mr dr by (simp_all add: length_padStart2)
  have dm: "list_all is_digit ?m" and dd: "list_all is_digit ?d"
    using mr dr by (simp_all add: padStart2_digits)
  have k: "getDateKey tz a = String_of ?y @ ''-'' @ ?m @ ''-'' @ ?d"
    by (simp add: getDateKey_def date_key_def)
  have shape: "is_YYYY_MM_DD (getDateKey tz a)" if "1000 \<le> ?y" "?y \<le> 9999"
  proof -
    have ly: "length (String_of ?y) = 4"
      using that by (simp add: String_of_def length_nat_digits_4)
    have dy: "list_all is_digit (String_of ?y)"
      using that nat_digits_all_digits [of "nat ?y"] by (simp add: String_of_def)
    show ?thesis
      unfolding k is_YYYY_MM_DD_def
      using ly lm ld dy dm dd by (simp add: nth_append)
  qed
  have vm: "digits_value ?m = nat (getMonth tz a + 1)"
    and vd: "digits_value ?d = nat (getDate tz a)"
    using mr dr by (simp_all add: padStart2_value)
  have range: "0 \<le> getMonth tz a \<and> getMonth tz a \<le> 11
      \<and> 1 \<le> getDate tz a \<and> getDate tz a \<le> 31"
    using MonthFromDay_range [of "local_day tz a"] DateFromDay_range [of "local_day tz a"]
    by (simp add: getMonth_def getDate_def)
  have parts: "\<exists>m d. getDateKey tz a = String_of ?y @ ''-'' @ m @ ''-'' @ d
      \<and> length m = 2 \<and> length d = 2 \<and> list_all is_digit m \<and> list_all is_digit d
      \<and> digits_value m = nat (getMonth tz a + 1) \<and> digits_value d = nat (getDate tz a)"
    using k lm ld dm dd vm vd by blast
  have same: "getDateKey tz a = getDateKey tz b \<longleftrightarrow> local_day tz a = local_day tz b"
    by (rule getDateKey_eq_iff)
  show ?thesis
    using same shape parts range by blast
qed

lemma getDateKey_sample:
  "getFullYear utc 1704186000000 = 2024 \<and> is_YYYY_MM_DD (getDateKey utc 1704186000000)
   \<and> getDateKey utc 1704186000000 = ''2024-01-02''"
proof -
  have y: "getFullYear utc 1704186000000 = 2024"
    by (simp add: getFullYear_def sample_days) code_simp
  have k: "getDateKey utc 1704186000000 = ''2024-01-02''"
    by (simp add: getDateKey_day_key sample_days sample_keys)
  show ?thesis
    using y k getDateKey_properties [of utc 1704186000000 1704186000000] by simp
qed

text \<open>
  C9: the claim is that for every pair of instants \<open>getDateKey\<close> returns a zero-padded
  local-calendar \<^verbatim>\<open>YYYY-MM-DD\<close> string, the same for two instants of one local calendar
  day and different across a local midnight. The second half holds
  (\<open>getDateKey_properties\<close>). The first does not: the function pads the month and the
  day and leaves the year as it is, so the key of 15 June 999 is \<^verbatim>\<open>999-06-15\<close>, against
  the function's own description, \<^verbatim>\<open>Returns a YYYY-MM-DD string\<close>. \<open>getStats\<close> hands
  a stored \<open>lastUpdate\<close> to the function unchecked and files the day's sessions under
  that key.
\<close>

theorem C9_unpadded_year:
  "getDateKey utc (- 30627504000000) = ''999-06-15''
   \<and> \<not> is_YYYY_MM_DD (getDateKey utc (- 30627504000000))
   \<and> map_option history
        (returned (getStats utc sample_boot 1704186000000
           (stored_env (Parsed (sample_busy\<lparr>lastUpdate := - 30627504000000\<rparr>)))))
       = Some (Some [(''2023-12-31'', 2), (''999-06-15'', 2)])"
proof -
  have d: "local_day utc (- 30627504000000) = - 354485"
    by (simp add: local_day_def LocalTime_def utc_def msPerDay_def)
  have k: "day_key (- 354485) = ''999-06-15''"
    by code_simp
  have g: "getDateKey utc (- 30627504000000) = ''999-06-15''"
    by (simp add: getDateKey_day_key d k)
  show ?thesis
    by (simp add: g is_YYYY_MM_DD_def getStats_def load_stats_def daily_reset_def
        weekly_reset_def Let_def stored_env_def module_loaded_def saveStats_def returned_def
        sample_stats_def sample_busy_def getDateKey_day_key d k sample_days sample_keys
        ceil_div_def msPerDay_def)
qed

section \<open>The daily goal\<close>

text \<open>
  C10, as the code has it: the decrement button sets \<open>dailyGoal\<close> to the larger of 1
  and \<open>dailyGoal - 1\<close>, the increment button to \<open>dailyGoal + 1\<close>, the difference and the
  sum taken in double arithmetic: for a goal from 1 to below \<open>2 ^ 53\<close> they are exact.
  Both buttons leave every other field as it was and save the new record, and for every
  goal of at least 1 they keep it at 1 or more.
\<close>

theorem C10_goal_buttons:
  "stats (decrementGoal st) = (stats st)\<lparr>dailyGoal := dailyGoal (stats (decrementGoal st))\<rparr>
   \<and> stats (incrementGoal st) = (stats st)\<lparr>dailyGoal := dailyGoal (stats (incrementGoal st))\<rparr>
   \<and> statsItem (store (decrementGoal st)) = Parsed (stats (decrementGoal st))
   \<and> statsItem (store (incrementGoal st)) = Parsed (stats (incrementGoal st))
   \<and> dailyGoal (stats (decrementGoal st)) = max 1 (num_sub (dailyGoal (stats st)) 1)
   \<and> dailyGoal (stats (incrementGoal st)) = num_add (dailyGoal (stats st)) 1
   \<and> 1 \<le> dailyGoal (stats (decrementGoal st))
   \<and> (1 \<le> dailyGoal (stats st) \<longrightarrow> 1 \<le> dailyGoal (stats (incrementGoal st)))
   \<and> (1 \<le> dailyGoal (stats st) \<and> dailyGoal (stats st) < 2 ^ 53 \<longrightarrow>
        dailyGoal (stats (decrementGoal st)) = max 1 (dailyGoal (stats st) - 1)
        \<and> dailyGoal (stats (incrementGoal st)) = dailyGoal (stats st) + 1)"
proof -
  let ?g = "dailyGoal (stats st)"
  have keep: "1 \<le> num_add ?g 1" if "1 \<le> ?g"
    using that num_round_pos [of "?g + 1"] by (simp add: num_add_def)
  have exact: "num_sub ?g 1 = ?g - 1 \<and> num_add ?g 1 = ?g + 1" if "1 \<le> ?g" "?g < 2 ^ 53"
    using that by (simp add: num_sub_exact num_add_exact)
  show ?thesis
    using keep exact
    by (simp add: decrementGoal_def incrementGoal_def saveStats_def Let_def)
qed

theorem C10_goal_buttons_witness:
  "1 \<le> dailyGoal (stats sample_app) \<and> dailyGoal (stats sample_app) < 2 ^ 53
   \<and> dailyGoal (stats (decrementGoal sample_app)) = 3
   \<and> dailyGoal (stats (incrementGoal sample_app)) = 5
   \<and> dailyGoal (stats (decrementGoal (sample_app\<lparr>stats := sample_stats\<lparr>dailyGoal := 1\<rparr>\<rparr>))) = 1"
proof -
  have h: "dailyGoal (stats sample_app) = 4"
    by (simp add: sample_app_def sample_stats_def)
  have h1: "dailyGoal (stats (sample_app\<lparr>stats := sample_stats\<lparr>dailyGoal := 1\<rparr>\<rparr>)) = 1"
    by simp
  show ?thesis
    using C10_goal_buttons [of sample_app]
      C10_goal_buttons [of "sample_app\<lparr>stats := sample_stats\<lparr>dailyGoal := 1\<rparr>\<rparr>"]
    unfolding h h1 by simp
qed

text \<open>
  The claim as it was stated fails where doubles stop counting by ones: the increment
  button leaves a goal of \<open>2 ^ 53\<close> as it is, and the decrement button takes a goal of
  \<open>2 ^ 53 + 2\<close> to \<open>2 ^ 53\<close>, not to \<open>2 ^ 53 + 1\<close>.
\<close>

theorem C10_counterexample:
  "dailyGoal (stats (incrementGoal (sample_app\<lparr>stats := sample_stats\<lparr>dailyGoal := 9007199254740992\<rparr>\<rparr>)))
     = 9007199254740992
   \<and> dailyGoal (stats (decrementGoal (sample_app\<lparr>stats := sample_stats\<lparr>dailyGoal := 9007199254740994\<rparr>\<rparr>)))
     = 9007199254740992"
  by (simp add: incrementGoal_def decrementGoal_def Let_def num_add_def num_sub_def
      num_round_odd)

end
